theory Spec2Isabelle
  imports Complex_Main
begin

section \<open>Python values\<close>

text \<open>
  The analytics engine (\<^verbatim>\<open>sahayak_analytics.py\<close>) passes around the values that
  \<^verbatim>\<open>json.loads\<close> produces: \<^verbatim>\<open>None\<close>, booleans, integers, floats, strings, lists and
  dictionaries with string keys. A dictionary is an association list in insertion
  order (Python dictionaries iterate in that order); a lookup takes the first binding
  of a key. A string is the list of the bytes of its UTF-8 encoding. A float is a
  double: a finite double is carried as the rational number it denotes exactly, and
  the infinities and \<^verbatim>\<open>nan\<close> are values of their own.
\<close>

datatype float_value = Finite rat | PlusInf | MinusInf | NaN

datatype json =
    JNull
  | JBool bool
  | JInt int
  | JFloat float_value
  | JStr string
  | JArr "json list"
  | JObj "(string \<times> json) list"

datatype py_error =
    KeyError string
  | TypeError
  | AttributeError
  | NumpyError

text \<open>Truth value of a Python object, as \<^verbatim>\<open>if x:\<close> tests it.\<close>

fun truthy :: "json \<Rightarrow> bool" where
  "truthy JNull = False"
| "truthy (JBool b) = b"
| "truthy (JInt i) = (i \<noteq> 0)"
| "truthy (JFloat x) = (x \<noteq> Finite 0)"
| "truthy (JStr s) = (s \<noteq> [])"
| "truthy (JArr xs) = (xs \<noteq> [])"
| "truthy (JObj kvs) = (kvs \<noteq> [])"

section \<open>Student records\<close>

text \<open>
  A student record is one object of the input file: a dictionary from field names to
  values. The input format gives every field a string value, and the model types the
  values as strings. The code reads the fields \<^verbatim>\<open>name\<close>, \<^verbatim>\<open>grade\<close>, \<^verbatim>\<open>subject\<close>,
  \<^verbatim>\<open>remark\<close> and \<^verbatim>\<open>exam_date\<close>; \<^verbatim>\<open>student_data['k']\<close> raises \<^verbatim>\<open>KeyError\<close> when the
  key is absent.
\<close>

type_synonym student_record = "string \<rightharpoonup> string"

definition getitem :: "student_record \<Rightarrow> string \<Rightarrow> py_error + string" where
  "getitem d k = (case d k of None \<Rightarrow> Inl (KeyError k) | Some v \<Rightarrow> Inr v)"

definition required_fields :: "string list" where
  "required_fields = [''name'', ''grade'', ''subject'', ''remark'', ''exam_date'']"

definition valid_record :: "student_record \<Rightarrow> bool" where
  "valid_record d = (\<forall>k \<in> set required_fields. d k \<noteq> None)"

section \<open>The fallback analysis\<close>

text \<open>
  \<^verbatim>\<open>create_enhanced_fallback_analysis(student_data)\<close> builds a dictionary literal. The
  literal is evaluated top to bottom, so \<^verbatim>\<open>student_data['grade']\<close> is read before
  \<^verbatim>\<open>student_data['name']\<close>.
\<close>

definition fallback_of :: "string \<Rightarrow> string \<Rightarrow> json" where
  "fallback_of grade name = JObj
    [(''student_profile'', JObj
       [(''current_grade_level'', JStr grade),
        (''functional_level'', JStr ''Grade level assessment needed''),
        (''learning_pace'', JStr ''Average''),
        (''attention_span'', JStr ''Medium''),
        (''peer_interaction'', JStr ''Neutral''),
        (''independence_level'', JStr ''Medium'')]),
     (''academic_performance'', JObj
       [(''subject_mastery'', JInt 6),
        (''comprehension_level'', JInt 6),
        (''application_skills'', JInt 5),
        (''problem_solving'', JInt 6),
        (''retention_rate'', JInt 6)]),
     (''multi_grade_considerations'', JObj
       [(''can_help_younger_students'', JBool False),
        (''needs_advanced_challenges'', JBool False),
        (''requires_individualized_attention'', JBool True),
        (''works_well_in_mixed_groups'', JBool True)]),
     (''detailed_strengths'', JArr [JObj
       [(''strength'', JStr ''Shows potential''),
        (''evidence'', JStr ''Teacher observation''),
        (''classroom_application'', JStr ''Can participate in group activities''),
        (''teaching_strategy'', JStr ''Provide encouragement and support'')]]),
     (''detailed_challenges'', JArr [JObj
       [(''challenge'', JStr ''Needs assessment''),
        (''root_cause'', JStr ''Requires detailed evaluation''),
        (''severity'', JStr ''Medium''),
        (''impact_on_multi_grade'', JStr ''May need individualized attention''),
        (''immediate_intervention'', JStr ''Closer observation needed'')]]),
     (''sahayak_interventions'', JArr [JObj
       [(''intervention'', JStr ''Individual assessment''),
        (''specific_implementation'', JStr ''One-on-one evaluation with specific activities''),
        (''daily_schedule'', JStr ''During individual work time''),
        (''materials_needed'', JStr ''Basic classroom materials''),
        (''zero_cost_adaptation'', JStr ''Use existing materials''),
        (''expected_outcome'', JStr ''Better understanding of needs'')]]),
     (''personalized_summary'', JObj
       [(''immediate_actions_for_tomorrow'', JArr
          [JStr (''Observe '' @ name @ '' more closely during lessons''),
           JStr ''Note specific areas of strength and challenge'',
           JStr ''Plan targeted interventions based on observations'']),
        (''this_week_implementation'', JArr
          [JStr ''Monday: Detailed observation'',
           JStr ''Tuesday: Try different teaching approaches'',
           JStr ''Wednesday: Note what works best'',
           JStr ''Thursday: Implement successful strategies'',
           JStr ''Friday: Assess progress'']),
        (''success_timeline_with_numbers'', JStr
          ''Week 2: Better understanding of student needs. Week 4: Targeted interventions showing results. Week 6: Consistent improvement visible'')])]"

definition create_enhanced_fallback_analysis :: "student_record \<Rightarrow> py_error + json" where
  "create_enhanced_fallback_analysis student_data =
     (case getitem student_data ''grade'' of
        Inl e \<Rightarrow> Inl e
      | Inr grade \<Rightarrow>
          (case getitem student_data ''name'' of
             Inl e \<Rightarrow> Inl e
           | Inr name \<Rightarrow> Inr (fallback_of grade name)))"

section \<open>Python operations on parsed values\<close>

text \<open>
  The operations the code applies to an analysis, which may be any parsed value. Each
  one raises on the types Python raises on.
\<close>

text \<open>Sequencing: the second computation runs on the result of the first unless the
  first raised.\<close>

definition and_then :: "py_error + 'a \<Rightarrow> ('a \<Rightarrow> py_error + 'b) \<Rightarrow> py_error + 'b" where
  "and_then m f = (case m of Inr x \<Rightarrow> f x | Inl err \<Rightarrow> Inl err)"

definition startswith :: "string \<Rightarrow> string \<Rightarrow> bool" where
  "startswith s p = (take (length p) s = p)"

fun contains_str :: "string \<Rightarrow> string \<Rightarrow> bool" where
  "contains_str s [] = True"
| "contains_str [] (p # ps) = False"
| "contains_str (c # cs) (p # ps) =
     (startswith (c # cs) (p # ps) \<or> contains_str cs (p # ps))"

text \<open>\<^verbatim>\<open>k in x\<close> for a string \<open>k\<close>: a key of a dictionary, an element of a list, a
  substring of a string; the other types are not iterable.\<close>

fun py_in :: "string \<Rightarrow> json \<Rightarrow> py_error + bool" where
  "py_in k (JObj kvs) = Inr (k \<in> set (map fst kvs))"
| "py_in k (JArr xs) = Inr (JStr k \<in> set xs)"
| "py_in k (JStr s) = Inr (contains_str s k)"
| "py_in k _ = Inl TypeError"

text \<open>\<^verbatim>\<open>x['k']\<close>: only a dictionary takes a string subscript.\<close>

fun py_subscript :: "json \<Rightarrow> string \<Rightarrow> py_error + json" where
  "py_subscript (JObj kvs) k =
     (case map_of kvs k of None \<Rightarrow> Inl (KeyError k) | Some v \<Rightarrow> Inr v)"
| "py_subscript _ k = Inl TypeError"

text \<open>\<^verbatim>\<open>x.values()\<close> and \<^verbatim>\<open>x.get(k, d)\<close>: methods of dictionaries only.\<close>

fun py_values :: "json \<Rightarrow> py_error + json list" where
  "py_values (JObj kvs) = Inr (map snd kvs)"
| "py_values _ = Inl AttributeError"

fun py_get :: "json \<Rightarrow> string \<Rightarrow> json \<Rightarrow> py_error + json" where
  "py_get (JObj kvs) k d = Inr (case map_of kvs k of None \<Rightarrow> d | Some v \<Rightarrow> v)"
| "py_get _ k d = Inl AttributeError"

text \<open>\<^verbatim>\<open>for c in x\<close>: the elements of a list, the keys of a dictionary, the characters
  of a string.\<close>

fun py_iter :: "json \<Rightarrow> py_error + json list" where
  "py_iter (JArr xs) = Inr xs"
| "py_iter (JObj kvs) = Inr (map (\<lambda>kv. JStr (fst kv)) kvs)"
| "py_iter (JStr s) = Inr (map (\<lambda>c. JStr [c]) s)"
| "py_iter _ = Inl TypeError"

text \<open>Only \<^verbatim>\<open>None\<close>, booleans, numbers and strings can be dictionary keys.\<close>

fun hashable :: "json \<Rightarrow> bool" where
  "hashable (JArr xs) = False"
| "hashable (JObj kvs) = False"
| "hashable _ = True"

fun num_of :: "json \<Rightarrow> float_value option" where
  "num_of (JBool b) = Some (Finite (if b then 1 else 0))"
| "num_of (JInt i) = Some (Finite (of_int i))"
| "num_of (JFloat x) = Some x"
| "num_of _ = None"

text \<open>Equality of dictionary keys: \<^verbatim>\<open>True\<close>, \<^verbatim>\<open>1\<close> and \<^verbatim>\<open>1.0\<close> are one key, and
  \<^verbatim>\<open>nan\<close> equals nothing.\<close>

definition float_eq :: "float_value \<Rightarrow> float_value \<Rightarrow> bool" where
  "float_eq x y = (x \<noteq> NaN \<and> x = y)"

definition key_eq :: "json \<Rightarrow> json \<Rightarrow> bool" where
  "key_eq a b =
     (case (num_of a, num_of b) of
        (Some x, Some y) \<Rightarrow> float_eq x y
      | (None, None) \<Rightarrow> a = b
      | _ \<Rightarrow> False)"

subsection \<open>The mean of a list of values\<close>

text \<open>
  \<^verbatim>\<open>np.mean(list(d.values()))\<close> first makes an array of the list. Numbers and booleans
  are its scalars; nested lists are further dimensions and must be rectangular; a
  string, \<^verbatim>\<open>None\<close> or a dictionary anywhere makes the reduction raise. The mean of an
  array without entries is \<^verbatim>\<open>nan\<close>.
\<close>

fun np_array :: "json \<Rightarrow> (nat list \<times> float_value list) option" where
  "np_array (JBool b) = Some ([], [Finite (if b then 1 else 0)])"
| "np_array (JInt i) = Some ([], [Finite (of_int i)])"
| "np_array (JFloat x) = Some ([], [x])"
| "np_array (JArr xs) =
     (case those (map np_array xs) of
        None \<Rightarrow> None
      | Some [] \<Rightarrow> Some ([0], [])
      | Some (r # rs) \<Rightarrow>
          if list_all (\<lambda>r'. fst r' = fst r) rs
          then Some (length xs # fst r, concat (map snd (r # rs)))
          else None)"
| "np_array _ = None"

text \<open>
  What the code takes from its libraries and what depends on their version or on
  binary floating point: the mean numpy computes for entries whose sums are rounded
  (or its exception), and \<^verbatim>\<open>str.upper()\<close>.
\<close>

record library =
  float_mean :: "float_value list \<Rightarrow> py_error + float_value"
  str_upper :: "string \<Rightarrow> string"

text \<open>
  The entries are exactly summable when there are at most \<open>2 ^ 20\<close> of them, each is a
  finite multiple of \<open>1 / 1024\<close>, and their absolute values add up to at most \<open>2 ^ 43\<close>.
  Then every partial sum, in any order of summation, is a multiple of \<open>1 / 1024\<close> of
  absolute value at most \<open>2 ^ 43\<close>, hence a double, and no addition rounds. The division
  by the number of entries rounds once; since rounding is monotone and 7.5 and 5.5 are
  doubles, and a quotient other than them is at least \<open>1 / 2 ^ 30\<close> away from them, the
  rounded quotient compares with 7.5 and with 5.5 as the exact quotient does. For such
  entries the mean is given as the exact quotient; the code only compares it with these
  two numbers. For all other entries the mean is the library's.
\<close>

definition finite_part :: "float_value \<Rightarrow> rat" where
  "finite_part x = (case x of Finite q \<Rightarrow> q | _ \<Rightarrow> 0)"

definition exactly_summable :: "float_value list \<Rightarrow> bool" where
  "exactly_summable xs =
     (length xs \<le> 2 ^ 20
      \<and> list_all (\<lambda>x. case x of Finite q \<Rightarrow> of_int \<lfloor>1024 * q\<rfloor> = 1024 * q | _ \<Rightarrow> False) xs
      \<and> sum_list (map (\<lambda>x. \<bar>finite_part x\<bar>) xs) \<le> 2 ^ 43)"

definition np_mean :: "library \<Rightarrow> json list \<Rightarrow> py_error + float_value" where
  "np_mean lib vs =
     (case np_array (JArr vs) of
        None \<Rightarrow> Inl NumpyError
      | Some (shape, entries) \<Rightarrow>
          if entries = [] then Inr NaN
          else if exactly_summable entries
          then Inr (Finite (sum_list (map finite_part entries) / of_nat (length entries)))
          else float_mean lib entries)"

text \<open>Comparisons with \<^verbatim>\<open>nan\<close> are false.\<close>

definition ge :: "float_value \<Rightarrow> rat \<Rightarrow> bool" where
  "ge x t = (case x of Finite m \<Rightarrow> t \<le> m | PlusInf \<Rightarrow> True | _ \<Rightarrow> False)"

definition lt :: "float_value \<Rightarrow> rat \<Rightarrow> bool" where
  "lt x t = (case x of Finite m \<Rightarrow> m < t | MinusInf \<Rightarrow> True | _ \<Rightarrow> False)"

section \<open>Student reports\<close>

text \<open>
  The dictionary that \<^verbatim>\<open>generate_complete_report\<close> builds for one student. Its keys are
  fixed by the code, so it is a record; \<open>analysis\<close> holds whatever
  \<^verbatim>\<open>analyze_student_with_ai\<close> returned.
\<close>

record report =
  student_id :: nat
  student_name :: string
  grade :: string
  subject :: string
  exam_date :: string
  original_remark :: string
  analysis_date :: string
  analysis :: json

section \<open>Class insights: the pass over the reports\<close>

text \<open>
  The first half of \<^verbatim>\<open>generate_class_strategic_insights\<close> fills four lists and three
  dictionaries of lists in one loop over the reports.
\<close>

record issue_entry =
  student :: string
  issue :: json
  severity :: json

record buckets =
  high_performers :: "string list"
  need_urgent_support :: "string list"
  peer_helpers :: "string list"
  individual_attention_students :: "string list"
  grade_distribution :: "(string \<times> string list) list"
  subject_specific_issues :: "(string \<times> issue_entry list) list"
  attention_span_data :: "(json \<times> string list) list"

definition empty_buckets :: buckets where
  "empty_buckets =
     \<lparr>high_performers = [], need_urgent_support = [], peer_helpers = [],
      individual_attention_students = [], grade_distribution = [],
      subject_specific_issues = [], attention_span_data = []\<rparr>"

text \<open>\<^verbatim>\<open>if k not in d: d[k] = []\<close> followed by \<^verbatim>\<open>d[k].append(v)\<close>.\<close>

fun append_to ::
  "('key \<Rightarrow> 'key \<Rightarrow> bool) \<Rightarrow> 'key \<Rightarrow> 'item \<Rightarrow> ('key \<times> 'item list) list
     \<Rightarrow> ('key \<times> 'item list) list" where
  "append_to eq k v [] = [(k, [v])]"
| "append_to eq k v ((k', vs) # rest) =
     (if eq k' k then (k', vs @ [v]) # rest else (k', vs) # append_to eq k v rest)"

text \<open>Performance categorization with names.\<close>

definition categorize_performance ::
  "library \<Rightarrow> string \<Rightarrow> json \<Rightarrow> buckets \<Rightarrow> py_error + buckets" where
  "categorize_performance lib name a b =
     and_then (py_in ''academic_performance'' a) (\<lambda>present.
       if \<not> present then Inr b
       else
         and_then (py_subscript a ''academic_performance'') (\<lambda>perf.
         and_then (py_values perf) (\<lambda>vs.
         and_then (np_mean lib vs) (\<lambda>avg_score.
           if ge avg_score (15 / 2)
           then Inr (b\<lparr>high_performers := high_performers b @ [name]\<rparr>)
           else if lt avg_score (11 / 2)
           then Inr (b\<lparr>need_urgent_support := need_urgent_support b @ [name]\<rparr>)
           else Inr b))))"

text \<open>Multi-grade helpers identification.\<close>

definition identify_helpers :: "string \<Rightarrow> json \<Rightarrow> buckets \<Rightarrow> py_error + buckets" where
  "identify_helpers name a b =
     and_then (py_in ''multi_grade_considerations'' a) (\<lambda>present.
       if \<not> present then Inr b
       else
         and_then (py_subscript a ''multi_grade_considerations'') (\<lambda>mg.
         and_then (py_get mg ''can_help_younger_students'' (JBool False)) (\<lambda>can_help.
           let b1 = (if truthy can_help
                     then b\<lparr>peer_helpers := peer_helpers b @ [name]\<rparr> else b)
           in
         and_then (py_get mg ''requires_individualized_attention'' (JBool False)) (\<lambda>needs.
           Inr (if truthy needs
                then b1\<lparr>individual_attention_students :=
                          individual_attention_students b1 @ [name]\<rparr>
                else b1)))))"

text \<open>Attention span tracking.\<close>

definition track_attention :: "string \<Rightarrow> json \<Rightarrow> buckets \<Rightarrow> py_error + buckets" where
  "track_attention name a b =
     and_then (py_in ''student_profile'' a) (\<lambda>present.
       if \<not> present then Inr b
       else
         and_then (py_subscript a ''student_profile'') (\<lambda>profile.
         and_then (py_get profile ''attention_span'' (JStr ''Medium'')) (\<lambda>attention.
           if \<not> hashable attention then Inl TypeError
           else Inr (b\<lparr>attention_span_data :=
                          append_to key_eq attention name (attention_span_data b)\<rparr>))))"

text \<open>Subject-specific detailed issues: the inner loop over the challenges.\<close>

fun add_challenges :: "string \<Rightarrow> string \<Rightarrow> json list \<Rightarrow> buckets \<Rightarrow> py_error + buckets" where
  "add_challenges name subj [] b = Inr b"
| "add_challenges name subj (challenge # rest) b =
     and_then (py_get challenge ''challenge'' (JStr ''Unknown issue'')) (\<lambda>iss.
     and_then (py_get challenge ''severity'' (JStr ''Medium'')) (\<lambda>sev.
       add_challenges name subj rest
         (b\<lparr>subject_specific_issues :=
               append_to (=) subj \<lparr>student = name, issue = iss, severity = sev\<rparr>
                 (subject_specific_issues b)\<rparr>)))"

definition collect_issues :: "string \<Rightarrow> string \<Rightarrow> json \<Rightarrow> buckets \<Rightarrow> py_error + buckets" where
  "collect_issues name subj a b =
     and_then (py_in ''detailed_challenges'' a) (\<lambda>present.
       if \<not> present then Inr b
       else
         and_then (py_subscript a ''detailed_challenges'') (\<lambda>chs.
         and_then (py_iter chs) (\<lambda>items. add_challenges name subj items b)))"

text \<open>The body of the loop, for one report.\<close>

definition process_report :: "library \<Rightarrow> report \<Rightarrow> buckets \<Rightarrow> py_error + buckets" where
  "process_report lib r b =
     (let name = student_name r;
          b0 = b\<lparr>grade_distribution := append_to (=) (grade r) name (grade_distribution b)\<rparr>
      in
        and_then (categorize_performance lib name (analysis r) b0) (\<lambda>b1.
        and_then (identify_helpers name (analysis r) b1) (\<lambda>b2.
        and_then (track_attention name (analysis r) b2) (\<lambda>b3.
          collect_issues name (subject r) (analysis r) b3))))"

fun process_reports :: "library \<Rightarrow> report list \<Rightarrow> buckets \<Rightarrow> py_error + buckets" where
  "process_reports lib [] b = Inr b"
| "process_reports lib (r # rs) b = and_then (process_report lib r b) (process_reports lib rs)"

section \<open>Class insights: the directives\<close>

text \<open>
  The second half of \<^verbatim>\<open>generate_class_strategic_insights\<close> appends formatted lines to
  the list \<^verbatim>\<open>insights\<close>, one group of statements per directive category. Each group is
  a function here, and the result is their concatenation in the order of the code.
\<close>

fun str_nat :: "nat \<Rightarrow> string" where
  "str_nat n =
     (if n < 10 then [''0123456789'' ! n]
      else str_nat (n div 10) @ [''0123456789'' ! (n mod 10)])"

declare str_nat.simps [simp del]

fun join :: "string \<Rightarrow> string list \<Rightarrow> string" where
  "join sep [] = []"
| "join sep [x] = x"
| "join sep (x # y # ys) = x @ sep @ join sep (y # ys)"

text \<open>\<^verbatim>\<open>str.upper()\<close> is the library's. On ASCII text it is \<open>upper\<close>, which
  maps the letters a to z and leaves the other bytes as they are.\<close>

definition upper_char :: "char \<Rightarrow> char" where
  "upper_char c =
     (let n = (of_char c :: nat) in if 97 \<le> n \<and> n \<le> 122 then char_of (n - 32) else c)"

definition upper :: "string \<Rightarrow> string" where
  "upper s = map upper_char s"

text \<open>The bytes of the bullet and of the check mark, as the source file has them.\<close>

definition bullet :: string where
  "bullet = [CHR 0xE2, CHR 0x80, CHR 0x9A, CHR 0xC3, CHR 0x84, CHR 0xC2, CHR 0xA2]"

definition check_mark :: string where
  "check_mark = [CHR 0xE2, CHR 0x80, CHR 0x9A, CHR 0xC3, CHR 0xBA, CHR 0xC3, CHR 0xAC]"

definition item :: "string \<Rightarrow> string" where
  "item s = ''   '' @ bullet @ '' '' @ s"

definition setup_lines :: "nat \<Rightarrow> string list \<Rightarrow> string list" where
  "setup_lines total_students attention =
     [''<b>IMMEDIATE CLASSROOM SETUP (Implement Tomorrow):</b>'',
      item (''TOTAL CLASS SIZE: '' @ str_nat total_students @ '' students requiring ''
            @ str_nat (length attention) @ '' individual support stations'')]"

definition grade_line :: "string \<times> string list \<Rightarrow> string" where
  "grade_line gs =
     item (fst gs @ '': '' @ str_nat (length (snd gs)) @ '' students (''
           @ join '', '' (snd gs) @ '') - Seat together in rows 2-3'')"

definition grade_lines :: "(string \<times> string list) list \<Rightarrow> string list" where
  "grade_lines gd = map grade_line gd"

definition pair_line :: "string \<Rightarrow> string \<Rightarrow> string" where
  "pair_line helper struggling_student =
     item (''PAIR: '' @ helper @ '' (tutor) + '' @ struggling_student
           @ '' (learner) - Meet Tuesdays & Thursdays 11:30-11:50 AM, back-left corner desk'')"

text \<open>\<^verbatim>\<open>for i, helper in enumerate(peer_helpers): if i < len(need_urgent_support): ...\<close>\<close>

fun pairing_loop :: "nat \<Rightarrow> string list \<Rightarrow> string list \<Rightarrow> string list" where
  "pairing_loop i [] need = []"
| "pairing_loop i (helper # rest) need =
     (if i < length need then [pair_line helper (need ! i)] else [])
     @ pairing_loop (Suc i) rest need"

definition peer_tutoring_lines :: "string list \<Rightarrow> string list \<Rightarrow> string list" where
  "peer_tutoring_lines helpers need =
     (if helpers \<noteq> [] \<and> need \<noteq> [] then
        [''<b>PEER TUTORING SYSTEM (Start This Week):</b>'',
         item (''TUTORS AVAILABLE: '' @ join '', '' helpers @ '' can help struggling classmates''),
         item (''STUDENTS NEEDING HELP: '' @ join '', '' need @ '' require daily support'')]
        @ pairing_loop 0 helpers need
      else [])"

definition schedule_lines :: "string list \<Rightarrow> string list" where
  "schedule_lines attention =
     [''<b>DAILY SCHEDULE OPTIMIZATION (Exact Times):</b>'']
     @ (if attention \<noteq> [] then
          [item (''10:15-10:30 AM: Individual support time for '' @ join '', '' (take 3 attention)
                 @ '' while others do independent work'')]
          @ (if length attention > 3 then
               [item (''2:45-3:00 PM: Individual support time for '' @ join '', '' (drop 3 attention)
                      @ '' while others clean classroom'')]
             else [])
        else [])"

definition is_high :: "issue_entry \<Rightarrow> bool" where
  "is_high i = (severity i = JStr ''High'')"

definition subject_lines :: "library \<Rightarrow> string \<times> issue_entry list \<Rightarrow> string list" where
  "subject_lines lib si =
     (let subj = fst si; issues_list = snd si;
          high_severity_count = length (filter is_high issues_list)
      in if high_severity_count > 0 then
           [''<b>URGENT '' @ str_upper lib subj @ '' INTERVENTIONS:</b>'',
            item (''STUDENTS NEEDING IMMEDIATE HELP: ''
                  @ join '', '' (map student (filter is_high issues_list))),
            item (''ACTION: Dedicate first 15 minutes of '' @ subj
                  @ '' class to small group instruction with these students''),
            item ''LOCATION: Front corner of classroom, use visual aids and manipulatives'']
         else [])"

definition subject_intervention_lines ::
  "library \<Rightarrow> (string \<times> issue_entry list) list \<Rightarrow> string list" where
  "subject_intervention_lines lib ssi = concat (map (subject_lines lib) ssi)"

fun lookup_key :: "json \<Rightarrow> (json \<times> 'v) list \<Rightarrow> 'v option" where
  "lookup_key k [] = None"
| "lookup_key k ((k', v) # rest) = (if key_eq k' k then Some v else lookup_key k rest)"

definition attention_lines :: "(json \<times> string list) list \<Rightarrow> string list" where
  "attention_lines asd =
     (if asd \<noteq> [] then
        (case lookup_key (JStr ''Short'') asd of
           None \<Rightarrow> []
         | Some short_attention_students \<Rightarrow>
             [''<b>ATTENTION SPAN MANAGEMENT:</b>'',
              item (''SHORT ATTENTION ('' @ join '', '' short_attention_students
                    @ ''): Change activities every 8-10 minutes, use movement breaks''),
              item ''STRATEGY: Ring bell every 8 minutes, have these students stand and stretch for 30 seconds''])
      else [])"

definition layout_lines :: "string list \<Rightarrow> string list" where
  "layout_lines attention =
     [''<b>CLASSROOM LAYOUT (Rearrange This Week):</b>'',
      item (''FRONT ROW: Individual attention students ('' @ join '', '' (take 4 attention) @ '')''),
      item ''MIDDLE ROWS: Grade-level groups - Class 3 left side, Class 4 center, Class 5 right side'',
      item ''BACK LEFT CORNER: Peer tutoring station with small desk and manipulation materials'',
      item ''BACK RIGHT CORNER: Independent work station for advanced students'']"

definition tracking_lines :: "string list \<Rightarrow> string list \<Rightarrow> string list" where
  "tracking_lines need helpers =
     [''<b>PROGRESS TRACKING SYSTEM (Start Monday):</b>'',
      item (''MONDAY: Quick assessment - check weekend practice with ''
            @ (if need \<noteq> [] then join '', '' need else ''all students'')),
      item (''WEDNESDAY: Peer tutor feedback - ask ''
            @ (if helpers \<noteq> [] then join '', '' helpers else ''advanced students'')
            @ '' '' @ [CHR 0x27] @ ''How is your buddy doing?'' @ [CHR 0x27]),
      item (''FRIDAY: Weekly goals check - use simple '' @ check_mark
            @ ''/X marking for each student'' @ [CHR 0x27] @ ''s target skills'')]"

definition materials_lines :: "string list" where
  "materials_lines =
     [''<b>MATERIALS NEEDED (Zero Cost):</b>'',
      item ''20 small stones for counting (collect from playground)'',
      item ''3 cloth pieces for manipulation activities (use old saris/clothes)'',
      item ''2 small containers for storing materials (use empty containers)'',
      item ''1 progress tracking sheet per student (draw grid on paper)'']"

definition render_insights :: "library \<Rightarrow> nat \<Rightarrow> buckets \<Rightarrow> string list" where
  "render_insights lib total_students b =
     setup_lines total_students (individual_attention_students b)
     @ grade_lines (grade_distribution b)
     @ peer_tutoring_lines (peer_helpers b) (need_urgent_support b)
     @ schedule_lines (individual_attention_students b)
     @ subject_intervention_lines lib (subject_specific_issues b)
     @ attention_lines (attention_span_data b)
     @ layout_lines (individual_attention_students b)
     @ tracking_lines (need_urgent_support b) (peer_helpers b)
     @ materials_lines"

definition generate_class_strategic_insights ::
  "library \<Rightarrow> report list \<Rightarrow> py_error + string list" where
  "generate_class_strategic_insights lib reports =
     and_then (process_reports lib reports empty_buckets) (\<lambda>b.
       Inr (render_insights lib (length reports) b))"

section \<open>The assessment requester\<close>

subsection \<open>Retry configuration\<close>

text \<open>
  The error classes of \<^verbatim>\<open>google.api_core.exceptions\<close> that matter here, and the
  library's predicate \<^verbatim>\<open>Retry.if_transient_error\<close>, which is
  \<^verbatim>\<open>if_exception_type(InternalServerError, TooManyRequests, ServiceUnavailable)\<close>.
\<close>

datatype api_exception =
    InternalServerError
  | TooManyRequests
  | ServiceUnavailable
  | InvalidArgument
  | NotFound
  | PermissionDenied
  | Unauthenticated

fun if_transient_error :: "api_exception \<Rightarrow> bool" where
  "if_transient_error InternalServerError = True"
| "if_transient_error TooManyRequests = True"
| "if_transient_error ServiceUnavailable = True"
| "if_transient_error _ = False"

record retry =
  initial :: rat
  maximum :: rat
  multiplier :: rat
  deadline :: rat
  predicate :: "api_exception \<Rightarrow> bool"

text \<open>
  The \<^verbatim>\<open>Retry(...)\<close> object that \<^verbatim>\<open>analyze_student_with_ai\<close> constructs from the value
  of the attribute access \<^verbatim>\<open>Retry.if_transient_error\<close>, and which it passes as
  \<^verbatim>\<open>request_options={'retry': retry}\<close>.
\<close>

definition retry_with :: "(api_exception \<Rightarrow> bool) \<Rightarrow> retry" where
  "retry_with p =
     \<lparr>initial = 1, maximum = 60, multiplier = 2, deadline = 120, predicate = p\<rparr>"

subsection \<open>The prompt\<close>

text \<open>
  \<^verbatim>\<open>_build_prompt\<close> substitutes \<^verbatim>\<open>name\<close>, \<^verbatim>\<open>grade\<close>, \<^verbatim>\<open>subject\<close>, \<^verbatim>\<open>remark\<close> and once more
  \<^verbatim>\<open>grade\<close> into a fixed template, in this order. The prompt is kept as the four
  substituted values; the text of the template is the same for every student and is
  not reproduced.
\<close>

record prompt =
  p_name :: string
  p_grade :: string
  p_subject :: string
  p_remark :: string

definition build_prompt :: "student_record \<Rightarrow> py_error + prompt" where
  "build_prompt student_data =
     and_then (getitem student_data ''name'') (\<lambda>n.
     and_then (getitem student_data ''grade'') (\<lambda>g.
     and_then (getitem student_data ''subject'') (\<lambda>s.
     and_then (getitem student_data ''remark'') (\<lambda>r.
       Inr \<lparr>p_name = n, p_grade = g, p_subject = s, p_remark = r\<rparr>))))"

subsection \<open>The reply of the reasoning capability\<close>

text \<open>
  What one call of \<^verbatim>\<open>self.model.generate_content\<close> comes to, as far as the code can
  tell: the call, or reading the text of the response, raised (after whatever retries
  the library made); or the response is empty or has no text; or there is a text.
\<close>

datatype ai_outcome = Raised | Missing | Text string

type_synonym capability = "prompt \<Rightarrow> retry \<Rightarrow> ai_outcome"

subsection \<open>Cleaning the response text\<close>

definition fence :: string where
  "fence = [CHR 0x60, CHR 0x60, CHR 0x60]"

text \<open>\<^verbatim>\<open>s.replace(old, '')\<close>: the occurrences of \<open>old\<close> are removed from left to right.\<close>

function remove_all :: "string \<Rightarrow> string \<Rightarrow> string" where
  "remove_all old [] = []"
| "remove_all old (c # cs) =
     (if old \<noteq> [] \<and> startswith (c # cs) old
      then remove_all old (drop (length old) (c # cs))
      else c # remove_all old cs)"
  by pat_completeness auto
termination
  by (relation "measure (\<lambda>(old, s). length s)") (auto simp: neq_Nil_conv)

text \<open>
  \<^verbatim>\<open>s.strip()\<close> removes the white space characters of Unicode from both ends: the
  code points 9 to 13, 28 to 32, 0x85, 0xA0, 0x1680, 0x2000 to 0x200A, 0x2028, 0x2029,
  0x202F, 0x205F and 0x3000, here as their UTF-8 byte sequences.
\<close>

definition white_space :: "string list" where
  "white_space =
     map (\<lambda>n. [char_of (n :: nat)]) [9, 10, 11, 12, 13, 28, 29, 30, 31, 32]
     @ [[CHR 0xC2, CHR 0x85], [CHR 0xC2, CHR 0xA0], [CHR 0xE1, CHR 0x9A, CHR 0x80]]
     @ map (\<lambda>n. [CHR 0xE2, CHR 0x80, char_of (n :: nat)]) [128 ..< 139]
     @ [[CHR 0xE2, CHR 0x80, CHR 0xA8], [CHR 0xE2, CHR 0x80, CHR 0xA9],
        [CHR 0xE2, CHR 0x80, CHR 0xAF], [CHR 0xE2, CHR 0x81, CHR 0x9F],
        [CHR 0xE3, CHR 0x80, CHR 0x80]]"

text \<open>The length of the sequence of \<open>seqs\<close> that the string starts with, or 0.\<close>

definition space_length :: "string list \<Rightarrow> string \<Rightarrow> nat" where
  "space_length seqs s =
     (case find (\<lambda>w. startswith s w) seqs of None \<Rightarrow> 0 | Some w \<Rightarrow> length w)"

fun lstrip_by :: "string list \<Rightarrow> string \<Rightarrow> string" where
  "lstrip_by seqs [] = []"
| "lstrip_by seqs (c # cs) =
     (if space_length seqs (c # cs) = 0 then c # cs
      else lstrip_by seqs (drop (space_length seqs (c # cs) - 1) cs))"

definition strip :: "string \<Rightarrow> string" where
  "strip s = rev (lstrip_by (map rev white_space) (rev (lstrip_by white_space s)))"

definition clean_response :: "string \<Rightarrow> string" where
  "clean_response response_text =
     (if startswith response_text (fence @ ''json'')
      then strip (remove_all fence (remove_all (fence @ ''json'') response_text))
      else response_text)"

subsection \<open>\<^verbatim>\<open>analyze_student_with_ai\<close>\<close>

text \<open>
  The function takes as parameters the value of the attribute access
  \<^verbatim>\<open>Retry.if_transient_error\<close> (\<open>None\<close> when the class has no such attribute and the
  access raises \<^verbatim>\<open>AttributeError\<close>), the parser \<^verbatim>\<open>json.loads\<close> (\<open>None\<close> when it raises)
  and the capability. It returns the calls it made together with its result.
  The prompt is built before the \<^verbatim>\<open>try\<close>, so a \<^verbatim>\<open>KeyError\<close> from it is not caught.
  The retry object is constructed inside the \<^verbatim>\<open>try\<close>, before the call. Both \<^verbatim>\<open>except\<close>
  clauses print the student's name and return the fallback analysis; an exception
  raised inside them goes to the caller.
\<close>

definition except_clause :: "student_record \<Rightarrow> py_error + json" where
  "except_clause student_data =
     and_then (getitem student_data ''name'') (\<lambda>n.
       create_enhanced_fallback_analysis student_data)"

definition analyze_student_with_ai ::
  "(api_exception \<Rightarrow> bool) option \<Rightarrow> (string \<Rightarrow> json option) \<Rightarrow> capability
     \<Rightarrow> student_record \<Rightarrow> (prompt \<times> retry) list \<times> (py_error + json)" where
  "analyze_student_with_ai attribute loads generate_content student_data =
     (case build_prompt student_data of
        Inl e \<Rightarrow> ([], Inl e)
      | Inr pr \<Rightarrow>
          (case attribute of
             None \<Rightarrow> ([], except_clause student_data)
           | Some p \<Rightarrow>
               ([(pr, retry_with p)],
                (case generate_content pr (retry_with p) of
                   Raised \<Rightarrow> except_clause student_data
                 | Missing \<Rightarrow>
                     (case create_enhanced_fallback_analysis student_data of
                        Inl e \<Rightarrow> except_clause student_data
                      | Inr a \<Rightarrow> Inr a)
                 | Text response_text \<Rightarrow>
                     (case loads (clean_response response_text) of
                        None \<Rightarrow> except_clause student_data
                      | Some a \<Rightarrow> Inr a)))))"

section \<open>The run: \<^verbatim>\<open>generate_complete_report\<close>\<close>

subsection \<open>Clock readings\<close>

text \<open>
  \<^verbatim>\<open>datetime.datetime.now()\<close> is read several times in a run. A reading is a record of
  its fields; \<^verbatim>\<open>strftime("%Y%m%d_%H%M%S")\<close> and \<^verbatim>\<open>isoformat()\<close> format it.
\<close>

record datetime =
  year :: nat
  month :: nat
  day :: nat
  hour :: nat
  minute :: nat
  second :: nat
  microsecond :: nat

definition pad :: "nat \<Rightarrow> nat \<Rightarrow> string" where
  "pad w n = replicate (w - length (str_nat n)) (CHR ''0'') @ str_nat n"

definition strftime :: "datetime \<Rightarrow> string" where
  "strftime t =
     pad 4 (year t) @ pad 2 (month t) @ pad 2 (day t) @ ''_''
     @ pad 2 (hour t) @ pad 2 (minute t) @ pad 2 (second t)"

definition isoformat :: "datetime \<Rightarrow> string" where
  "isoformat t =
     pad 4 (year t) @ ''-'' @ pad 2 (month t) @ ''-'' @ pad 2 (day t) @ ''T''
     @ pad 2 (hour t) @ '':'' @ pad 2 (minute t) @ '':'' @ pad 2 (second t)
     @ (if microsecond t = 0 then [] else ''.'' @ pad 6 (microsecond t))"

subsection \<open>The surroundings of a run\<close>

text \<open>
  What a run takes from outside: the value of \<^verbatim>\<open>Retry.if_transient_error\<close> (\<open>None\<close> when
  the access raises); the parser \<^verbatim>\<open>json.loads\<close>; the reply of the capability to the call
  made for the \<open>i\<close>-th student; the \<open>n\<close>-th reading of the clock; the temporary
  directory; whether steps 2 to 4 (the charts and the PDF, made with the plotting and
  document libraries) ran without raising; and which paths exist when the run ends.
\<close>

record env =
  retry_attribute :: "(api_exception \<Rightarrow> bool) option"
  loads :: "string \<Rightarrow> json option"
  capability_at :: "nat \<Rightarrow> capability"
  now :: "nat \<Rightarrow> datetime"
  temp_dir :: string
  charts_and_pdf_ok :: "report list \<Rightarrow> bool"
  path_exists :: "string \<Rightarrow> bool"

subsection \<open>Step 1: the analysis loop\<close>

record loop_state =
  calls :: "(prompt \<times> retry) list"
  clock :: nat
  reports :: "report list"

text \<open>The dictionary literal of the report reads the fields of the record in the
  order \<^verbatim>\<open>name\<close>, \<^verbatim>\<open>grade\<close>, \<^verbatim>\<open>subject\<close>, \<^verbatim>\<open>exam_date\<close>, \<^verbatim>\<open>remark\<close>, then the clock.\<close>

definition make_report :: "nat \<Rightarrow> student_record \<Rightarrow> datetime \<Rightarrow> json \<Rightarrow> py_error + report" where
  "make_report i student_data t a =
     and_then (getitem student_data ''name'') (\<lambda>n.
     and_then (getitem student_data ''grade'') (\<lambda>g.
     and_then (getitem student_data ''subject'') (\<lambda>s.
     and_then (getitem student_data ''exam_date'') (\<lambda>d.
     and_then (getitem student_data ''remark'') (\<lambda>r.
       Inr \<lparr>student_id = i, student_name = n, grade = g, subject = s, exam_date = d,
            original_remark = r, analysis_date = isoformat t, analysis = a\<rparr>)))))"

text \<open>
  \<^verbatim>\<open>for i, student_data in enumerate(self.student_data, 1)\<close>: the first \<^verbatim>\<open>print\<close> reads
  \<^verbatim>\<open>name\<close> and \<^verbatim>\<open>grade\<close>; then the student is analysed; a report is made only
  \<^verbatim>\<open>if analysis:\<close>. The loop stops at the first exception, which the result carries.
\<close>

fun analysis_loop ::
  "env \<Rightarrow> nat \<Rightarrow> student_record list \<Rightarrow> loop_state \<Rightarrow> loop_state \<times> py_error option" where
  "analysis_loop e i [] st = (st, None)"
| "analysis_loop e i (student_data # rest) st =
     (case and_then (getitem student_data ''name'') (\<lambda>n. getitem student_data ''grade'') of
        Inl err \<Rightarrow> (st, Some err)
      | Inr g \<Rightarrow>
          (case analyze_student_with_ai (retry_attribute e) (loads e) (capability_at e i)
                  student_data of
             (cs, res) \<Rightarrow>
               (let st1 = st\<lparr>calls := calls st @ cs\<rparr> in
                  case res of
                    Inl err \<Rightarrow> (st1, Some err)
                  | Inr a \<Rightarrow>
                      if truthy a then
                        (case make_report i student_data (now e (clock st1)) a of
                           Inl err \<Rightarrow> (st1, Some err)
                         | Inr r \<Rightarrow>
                             analysis_loop e (Suc i) rest
                               (st1\<lparr>clock := Suc (clock st1), reports := reports st1 @ [r]\<rparr>))
                      else analysis_loop e (Suc i) rest st1)))"

subsection \<open>File names and the archive\<close>

definition path_join :: "string \<Rightarrow> string \<Rightarrow> string" where
  "path_join dir name = dir @ ''/'' @ name"

text \<open>\<^verbatim>\<open>name.replace(" ", "_")\<close>\<close>

definition underscores :: "string \<Rightarrow> string" where
  "underscores s = map (\<lambda>c. if c = CHR '' '' then CHR ''_'' else c) s"

definition student_chart_filename :: "string \<Rightarrow> report \<Rightarrow> string" where
  "student_chart_filename dir r =
     path_join dir (''sahayak_student_'' @ str_nat (student_id r) @ ''_''
                    @ underscores (student_name r) @ ''.png'')"

definition class_chart_filename :: "string \<Rightarrow> string" where
  "class_chart_filename dir = path_join dir ''sahayak_class_analytics.png''"

definition pdf_report_filename :: "string \<Rightarrow> datetime \<Rightarrow> string" where
  "pdf_report_filename dir t =
     path_join dir (''SAHAYAK_Complete_Report_'' @ strftime t @ ''.pdf'')"

definition json_data_filename :: "string \<Rightarrow> datetime \<Rightarrow> string" where
  "json_data_filename dir t =
     path_join dir (''sahayak_analysis_data_'' @ strftime t @ ''.json'')"

definition report_json :: "report \<Rightarrow> json" where
  "report_json r = JObj
     [(''student_id'', JInt (int (student_id r))),
      (''student_name'', JStr (student_name r)),
      (''grade'', JStr (grade r)),
      (''subject'', JStr (subject r)),
      (''exam_date'', JStr (exam_date r)),
      (''original_remark'', JStr (original_remark r)),
      (''analysis_date'', JStr (analysis_date r)),
      (''analysis'', analysis r)]"

text \<open>The object that step 5 hands to \<^verbatim>\<open>json.dump\<close>.\<close>

definition archive_json :: "report list \<Rightarrow> datetime \<Rightarrow> json" where
  "archive_json rs t = JObj
     [(''metadata'', JObj
        [(''system'', JStr ''SAHAYAK - AI Teaching Assistant''),
         (''version'', JStr ''1.0 - Multi-Grade Classroom Analytics''),
         (''total_students'', JInt (int (length rs))),
         (''analysis_date'', JStr (isoformat t)),
         (''designed_for'', JStr ''Under-resourced multi-grade classrooms in India'')]),
      (''students'', JArr (map report_json rs))]"

subsection \<open>Steps 2 to 5\<close>

text \<open>
  The artifacts of a run whose analysis loop ended with the clock read \<open>c\<close> times. The
  PDF step reads the clock twice (the file name, then the summary table); step 5 reads
  it twice more (the file name, then the metadata).
\<close>

record artifacts =
  pdf_filename :: string
  class_chart :: string
  json_filename :: string
  individual_charts :: "string list"
  archive :: json

definition make_bundle :: "env \<Rightarrow> nat \<Rightarrow> report list \<Rightarrow> artifacts" where
  "make_bundle e c rs =
     \<lparr>pdf_filename = pdf_report_filename (temp_dir e) (now e c),
      class_chart = class_chart_filename (temp_dir e),
      json_filename = json_data_filename (temp_dir e) (now e (c + 2)),
      individual_charts = map (student_chart_filename (temp_dir e)) rs,
      archive = archive_json rs (now e (c + 3))\<rparr>"

record run_result =
  generated_files :: "string list"
  calls_made :: "(prompt \<times> retry) list"
  reports_built :: "report list"
  produced :: "artifacts option"

text \<open>Every exception inside \<^verbatim>\<open>generate_complete_report\<close> is caught, and the function
  then returns the empty list. Besides the returned list the result records the calls
  that were made, the reports that step 1 had built when it ended, and the artifacts.\<close>

definition generate_complete_report :: "env \<Rightarrow> student_record list \<Rightarrow> run_result" where
  "generate_complete_report e student_data =
     (case analysis_loop e 1 student_data \<lparr>calls = [], clock = 0, reports = []\<rparr> of
        (st, Some err) \<Rightarrow>
          \<lparr>generated_files = [], calls_made = calls st, reports_built = reports st,
           produced = None\<rparr>
      | (st, None) \<Rightarrow>
          if reports st = [] then
            \<lparr>generated_files = [], calls_made = calls st, reports_built = reports st,
             produced = None\<rparr>
          else if \<not> charts_and_pdf_ok e (reports st) then
            \<lparr>generated_files = [], calls_made = calls st, reports_built = reports st,
             produced = None\<rparr>
          else
            (let b = make_bundle e (clock st) (reports st) in
               \<lparr>generated_files =
                  filter (path_exists e)
                    ([pdf_filename b, class_chart b, json_filename b] @ individual_charts b),
                calls_made = calls st,
                reports_built = reports st,
                produced = Some b\<rparr>))"

subsection \<open>The built-in demo data\<close>

definition demo_record :: "string \<Rightarrow> string \<Rightarrow> string \<Rightarrow> string \<Rightarrow> string \<Rightarrow> student_record" where
  "demo_record n g s r d =
     [''name'' \<mapsto> n, ''grade'' \<mapsto> g, ''subject'' \<mapsto> s, ''remark'' \<mapsto> r, ''exam_date'' \<mapsto> d]"

definition arjun :: student_record where
  "arjun = demo_record ''Arjun'' ''Class 4'' ''Mathematics''
     ''Arjun excels in basic arithmetic but struggles with word problems. Shows excellent focus during individual work but gets distracted in group settings. Needs support in reading comprehension for math problems.''
     ''2024-12-15''"

definition priya :: student_record where
  "priya = demo_record ''Priya'' ''Class 5'' ''English''
     ''Priya has strong vocabulary but struggles with sentence construction. She helps younger students during reading time, showing leadership qualities. Needs structured grammar practice and confidence building for writing.''
     ''2024-12-14''"

section \<open>The vocabulary of the specification\<close>

subsection \<open>The assessment schema\<close>

text \<open>
  The shape of an assessment as the data model of the specification words it, with
  the key names of the code: seven sections, each optional in presence, and each of a
  fixed shape when it is present. An assessment is complete when all seven are there.
\<close>

definition str_fields :: "(string \<times> json) list \<Rightarrow> string list \<Rightarrow> bool" where
  "str_fields kvs ks =
     list_all (\<lambda>k. case map_of kvs k of Some (JStr s) \<Rightarrow> True | _ \<Rightarrow> False) ks"

definition list_of :: "(json \<Rightarrow> bool) \<Rightarrow> json \<Rightarrow> bool" where
  "list_of P v = (case v of JArr xs \<Rightarrow> list_all P xs | _ \<Rightarrow> False)"

definition is_str :: "json \<Rightarrow> bool" where
  "is_str v = (case v of JStr s \<Rightarrow> True | _ \<Rightarrow> False)"

definition metric_names :: "string list" where
  "metric_names =
     [''subject_mastery'', ''comprehension_level'', ''application_skills'',
      ''problem_solving'', ''retention_rate'']"

definition valid_score :: "json \<Rightarrow> bool" where
  "valid_score v =
     (case v of
        JInt i \<Rightarrow> 1 \<le> i \<and> i \<le> 10
      | JFloat (Finite q) \<Rightarrow> 1 \<le> q \<and> q \<le> 10 \<and> of_int \<lfloor>q\<rfloor> = q
      | _ \<Rightarrow> False)"

definition valid_profile :: "json \<Rightarrow> bool" where
  "valid_profile v =
     (case v of
        JObj kvs \<Rightarrow>
          str_fields kvs
            [''current_grade_level'', ''functional_level'', ''learning_pace'',
             ''attention_span'', ''peer_interaction'', ''independence_level'']
      | _ \<Rightarrow> False)"

definition valid_performance :: "json \<Rightarrow> bool" where
  "valid_performance v =
     (case v of
        JObj kvs \<Rightarrow>
          list_all (\<lambda>k. case map_of kvs k of Some x \<Rightarrow> valid_score x | None \<Rightarrow> False)
            metric_names
      | _ \<Rightarrow> False)"

definition valid_considerations :: "json \<Rightarrow> bool" where
  "valid_considerations v =
     (case v of
        JObj kvs \<Rightarrow>
          list_all (\<lambda>k. case map_of kvs k of Some (JBool b) \<Rightarrow> True | _ \<Rightarrow> False)
            [''can_help_younger_students'', ''needs_advanced_challenges'',
             ''requires_individualized_attention'', ''works_well_in_mixed_groups'']
      | _ \<Rightarrow> False)"

definition valid_strength :: "json \<Rightarrow> bool" where
  "valid_strength v =
     (case v of
        JObj kvs \<Rightarrow>
          str_fields kvs
            [''strength'', ''evidence'', ''classroom_application'', ''teaching_strategy'']
      | _ \<Rightarrow> False)"

definition valid_challenge :: "json \<Rightarrow> bool" where
  "valid_challenge v =
     (case v of
        JObj kvs \<Rightarrow>
          str_fields kvs
            [''challenge'', ''root_cause'', ''impact_on_multi_grade'',
             ''immediate_intervention'']
          \<and> (case map_of kvs ''severity'' of
                Some (JStr s) \<Rightarrow> s = ''Low'' \<or> s = ''Medium'' \<or> s = ''High''
              | _ \<Rightarrow> False)
      | _ \<Rightarrow> False)"

definition valid_intervention :: "json \<Rightarrow> bool" where
  "valid_intervention v = (case v of JObj kvs \<Rightarrow> True | _ \<Rightarrow> False)"

definition valid_summary :: "json \<Rightarrow> bool" where
  "valid_summary v =
     (case v of
        JObj kvs \<Rightarrow>
          (case map_of kvs ''immediate_actions_for_tomorrow'' of
             Some x \<Rightarrow> list_of is_str x | None \<Rightarrow> False)
          \<and> (case map_of kvs ''this_week_implementation'' of
                Some x \<Rightarrow> list_of is_str x | None \<Rightarrow> False)
          \<and> str_fields kvs [''success_timeline_with_numbers'']
      | _ \<Rightarrow> False)"

definition sections :: "(string \<times> (json \<Rightarrow> bool)) list" where
  "sections =
     [(''student_profile'', valid_profile),
      (''academic_performance'', valid_performance),
      (''multi_grade_considerations'', valid_considerations),
      (''detailed_strengths'', list_of valid_strength),
      (''detailed_challenges'', list_of valid_challenge),
      (''sahayak_interventions'', list_of valid_intervention),
      (''personalized_summary'', valid_summary)]"

definition schema_valid :: "json \<Rightarrow> bool" where
  "schema_valid a =
     (case a of
        JObj kvs \<Rightarrow>
          list_all (\<lambda>sec. case map_of kvs (fst sec) of None \<Rightarrow> True | Some v \<Rightarrow> snd sec v)
            sections
      | _ \<Rightarrow> False)"

definition complete :: "json \<Rightarrow> bool" where
  "complete a =
     (case a of
        JObj kvs \<Rightarrow> list_all (\<lambda>sec. map_of kvs (fst sec) \<noteq> None) sections
      | _ \<Rightarrow> False)"

text \<open>Reading a section, and an entry of a section, of an assessment that is a
  dictionary.\<close>

definition section_of :: "string \<Rightarrow> json \<Rightarrow> json option" where
  "section_of k a = (case a of JObj kvs \<Rightarrow> map_of kvs k | _ \<Rightarrow> None)"

definition entry_of :: "string \<Rightarrow> string \<Rightarrow> json \<Rightarrow> json option" where
  "entry_of sec k a =
     (case section_of sec a of Some (JObj kvs) \<Rightarrow> map_of kvs k | _ \<Rightarrow> None)"

subsection \<open>Performance bands\<close>

text \<open>The band of a mean score: at least 7.5 is high, below 5.5 is urgent, and
  anything else is mid.\<close>

datatype band = High | Mid | Urgent

definition band_of_mean :: "rat \<Rightarrow> band" where
  "band_of_mean m = (if 15 / 2 \<le> m then High else if m < 11 / 2 then Urgent else Mid)"

fun score_of :: "json \<Rightarrow> rat option" where
  "score_of (JInt i) = Some (of_int i)"
| "score_of (JFloat (Finite q)) = Some q"
| "score_of _ = None"

text \<open>The five scores of an assessment whose \<^verbatim>\<open>academic_performance\<close> is a dictionary
  of exactly the five metrics with numbers as values, in the order of
  \<open>metric_names\<close>; and their mean.\<close>

definition metric_scores :: "json \<Rightarrow> rat list option" where
  "metric_scores a =
     (case section_of ''academic_performance'' a of
        Some (JObj ps) \<Rightarrow>
          if distinct (map fst ps) \<and> set (map fst ps) = set metric_names
          then those (map (\<lambda>k. case map_of ps k of Some v \<Rightarrow> score_of v | None \<Rightarrow> None)
                       metric_names)
          else None
      | _ \<Rightarrow> None)"

definition five_metric_mean :: "json \<Rightarrow> rat" where
  "five_metric_mean a = sum_list (the (metric_scores a)) / 5"

definition band_of :: "report \<Rightarrow> band" where
  "band_of r = band_of_mean (five_metric_mean (analysis r))"

text \<open>The mean that the code computes for an assessment, when it computes one, and
  the band the code gives to it.\<close>

definition code_mean :: "library \<Rightarrow> json \<Rightarrow> float_value option" where
  "code_mean lib a =
     (case section_of ''academic_performance'' a of
        None \<Rightarrow> None
      | Some perf \<Rightarrow>
          (case and_then (py_values perf) (np_mean lib) of
             Inl err \<Rightarrow> None
           | Inr m \<Rightarrow> Some m))"

definition code_band :: "library \<Rightarrow> json \<Rightarrow> band" where
  "code_band lib a =
     (case code_mean lib a of
        None \<Rightarrow> Mid
      | Some m \<Rightarrow> if ge m (15 / 2) then High else if lt m (11 / 2) then Urgent else Mid)"

subsection \<open>Multi-grade flags\<close>

text \<open>A flag of \<^verbatim>\<open>multi_grade_considerations\<close> is set when the section is a
  dictionary that binds the flag to a true value.\<close>

definition flag_set :: "string \<Rightarrow> json \<Rightarrow> bool" where
  "flag_set k a =
     (case entry_of ''multi_grade_considerations'' k a of
        Some v \<Rightarrow> truthy v
      | None \<Rightarrow> False)"

subsection \<open>Attention span and challenges\<close>

text \<open>The attention span the code reads from an assessment whose profile is a
  dictionary, and the severities of its challenges when these are a list.\<close>

definition attention_of :: "json \<Rightarrow> json option" where
  "attention_of a =
     (case section_of ''student_profile'' a of
        Some (JObj kvs) \<Rightarrow>
          Some (case map_of kvs ''attention_span'' of None \<Rightarrow> JStr ''Medium'' | Some v \<Rightarrow> v)
      | _ \<Rightarrow> None)"

definition severity_of :: "json \<Rightarrow> json" where
  "severity_of c =
     (case c of
        JObj kvs \<Rightarrow> (case map_of kvs ''severity'' of None \<Rightarrow> JStr ''Medium'' | Some v \<Rightarrow> v)
      | _ \<Rightarrow> JNull)"

definition has_high_challenge :: "json \<Rightarrow> bool" where
  "has_high_challenge a =
     (case section_of ''detailed_challenges'' a of
        Some (JArr cs) \<Rightarrow> JStr ''High'' \<in> set (map severity_of cs)
      | _ \<Rightarrow> False)"

subsection \<open>Lines of the class insights\<close>

text \<open>The peer helpers and the students at risk of a class, in input order; the
  subjects that have a challenge of high severity, in the order of the dictionary.\<close>

definition helpers_of :: "report list \<Rightarrow> string list" where
  "helpers_of rs =
     map student_name (filter (\<lambda>r. flag_set ''can_help_younger_students'' (analysis r)) rs)"

definition at_risk_of :: "library \<Rightarrow> report list \<Rightarrow> string list" where
  "at_risk_of lib rs =
     map student_name (filter (\<lambda>r. code_band lib (analysis r) = Urgent) rs)"

definition high_subjects :: "(string \<times> issue_entry list) list \<Rightarrow> string list" where
  "high_subjects ssi = map fst (filter (\<lambda>si. filter is_high (snd si) \<noteq> []) ssi)"

text \<open>A category heading is a line that starts with \<^verbatim>\<open><b>\<close>. A pairing directive is a
  line that starts with the bullet and \<^verbatim>\<open>PAIR:\<close> and ends with the meeting time and
  place.\<close>

definition is_heading :: "string \<Rightarrow> bool" where
  "is_heading l = startswith l ''<b>''"

definition is_pairing_directive :: "string \<Rightarrow> bool" where
  "is_pairing_directive l =
     (startswith l (''   '' @ bullet @ '' PAIR: '')
      \<and> startswith (rev l)
           (rev '' (learner) - Meet Tuesdays & Thursdays 11:30-11:50 AM, back-left corner desk''))"

section \<open>Doubles\<close>

text \<open>
  Rounding a rational to the nearest double, ties to even: the magnitude is scaled so
  that its integer part has 53 bits (fewer for magnitudes below \<open>1 / 2 ^ 1022\<close>),
  rounded to an integer, and scaled back; a result of \<open>2 ^ 1024\<close> or more is an infinity.
\<close>

fun bits :: "nat \<Rightarrow> nat" where
  "bits n = (if n = 0 then 0 else Suc (bits (n div 2)))"

declare bits.simps [simp del]

definition pow2 :: "int \<Rightarrow> rat" where
  "pow2 e = (if 0 \<le> e then 2 ^ nat e else 1 / 2 ^ nat (- e))"

text \<open>The integer part of the binary logarithm of a positive rational.\<close>

definition ilog2 :: "rat \<Rightarrow> int" where
  "ilog2 a =
     (let k = int (bits (nat (fst (quotient_of a)))) - int (bits (nat (snd (quotient_of a))))
      in if a < pow2 k then k - 1 else k)"

definition round_half_even :: "rat \<Rightarrow> int" where
  "round_half_even x =
     (let f = \<lfloor>x\<rfloor>; r = x - of_int f
      in if r < 1 / 2 then f else if 1 / 2 < r then f + 1 else if even f then f else f + 1)"

definition round_double :: "rat \<Rightarrow> float_value" where
  "round_double q =
     (if q = 0 then Finite 0
      else
        (let a = \<bar>q\<bar>;
             u = pow2 (max (ilog2 a) (- 1022) - 52);
             r = of_int (round_half_even (a / u)) * u
         in if pow2 1024 \<le> r then (if 0 < q then PlusInf else MinusInf)
            else Finite (if 0 < q then r else - r)))"

text \<open>Addition of doubles, and division of a double by a count.\<close>

fun float_add :: "float_value \<Rightarrow> float_value \<Rightarrow> float_value" where
  "float_add (Finite a) (Finite b) = round_double (a + b)"
| "float_add NaN y = NaN"
| "float_add x NaN = NaN"
| "float_add PlusInf MinusInf = NaN"
| "float_add MinusInf PlusInf = NaN"
| "float_add PlusInf y = PlusInf"
| "float_add x PlusInf = PlusInf"
| "float_add MinusInf y = MinusInf"
| "float_add x MinusInf = MinusInf"

fun float_div :: "float_value \<Rightarrow> nat \<Rightarrow> float_value" where
  "float_div (Finite a) n = round_double (a / of_nat n)"
| "float_div x n = x"

text \<open>A mean that adds the entries from left to right, as a loop in plain Python
  does, rounding each sum.\<close>

definition sequential_mean :: "float_value list \<Rightarrow> py_error + float_value" where
  "sequential_mean xs = Inr (float_div (foldl float_add (Finite 0) xs) (length xs))"

definition plain_library :: library where
  "plain_library = \<lparr>float_mean = sequential_mean, str_upper = upper\<rparr>"

section \<open>The parser \<^verbatim>\<open>json.loads\<close>\<close>

definition dquote :: char where "dquote = CHR 0x22"
definition backslash :: char where "backslash = CHR 0x5C"

definition is_json_ws :: "char \<Rightarrow> bool" where
  "is_json_ws c = (c = CHR '' '' \<or> c = CHR 0x09 \<or> c = CHR 0x0A \<or> c = CHR 0x0D)"

definition skip_ws :: "string \<Rightarrow> string" where
  "skip_ws s = dropWhile is_json_ws s"

definition is_digit :: "char \<Rightarrow> bool" where
  "is_digit c = (let n = (of_char c :: nat) in 48 \<le> n \<and> n \<le> 57)"

definition digit_val :: "char \<Rightarrow> nat" where
  "digit_val c = of_char c - 48"

definition digits_val :: "string \<Rightarrow> nat" where
  "digits_val ds = foldl (\<lambda>a d. 10 * a + digit_val d) 0 ds"

definition hex_val :: "char \<Rightarrow> nat option" where
  "hex_val c =
     (let n = (of_char c :: nat) in
        if 48 \<le> n \<and> n \<le> 57 then Some (n - 48)
        else if 97 \<le> n \<and> n \<le> 102 then Some (n - 87)
        else if 65 \<le> n \<and> n \<le> 70 then Some (n - 55)
        else None)"

fun hex4 :: "string \<Rightarrow> nat option" where
  "hex4 [a, b, c, d] =
     (case (hex_val a, hex_val b, hex_val c, hex_val d) of
        (Some x, Some y, Some z, Some w) \<Rightarrow> Some (((x * 16 + y) * 16 + z) * 16 + w)
      | _ \<Rightarrow> None)"
| "hex4 _ = None"

definition utf8 :: "nat \<Rightarrow> string" where
  "utf8 cp =
     (if cp < 0x80 then [char_of cp]
      else if cp < 0x800 then [char_of (0xC0 + cp div 64), char_of (0x80 + cp mod 64)]
      else if cp < 0x10000 then
        [char_of (0xE0 + cp div 4096), char_of (0x80 + cp div 64 mod 64), char_of (0x80 + cp mod 64)]
      else
        [char_of (0xF0 + cp div 262144), char_of (0x80 + cp div 4096 mod 64),
         char_of (0x80 + cp div 64 mod 64), char_of (0x80 + cp mod 64)])"

definition simple_escape :: "char \<Rightarrow> char option" where
  "simple_escape e =
     (if e = dquote then Some dquote
      else if e = backslash then Some backslash
      else if e = CHR ''/'' then Some (CHR ''/'')
      else if e = CHR ''b'' then Some (CHR 0x08)
      else if e = CHR ''f'' then Some (CHR 0x0C)
      else if e = CHR ''n'' then Some (CHR 0x0A)
      else if e = CHR ''r'' then Some (CHR 0x0D)
      else if e = CHR ''t'' then Some (CHR 0x09)
      else None)"

definition prepend :: "string \<Rightarrow> (string \<times> string) option \<Rightarrow> (string \<times> string) option" where
  "prepend p r = map_option (\<lambda>(s, rest). (p @ s, rest)) r"

text \<open>The low surrogate escape that may follow a high surrogate escape.\<close>

definition low_surrogate :: "string \<Rightarrow> nat option" where
  "low_surrogate s =
     (if take 2 s = [backslash, CHR ''u''] then
        (case hex4 (take 4 (drop 2 s)) of
           Some lo \<Rightarrow> if 0xDC00 \<le> lo \<and> lo \<le> 0xDFFF then Some lo else None
         | None \<Rightarrow> None)
      else None)"

fun scan_string :: "string \<Rightarrow> (string \<times> string) option" where
  "scan_string [] = None"
| "scan_string (c # cs) =
     (if c = dquote then Some ([], cs)
      else if c = backslash then
        (case cs of
           [] \<Rightarrow> None
         | e # r \<Rightarrow>
             if e = CHR ''u'' then
               (case hex4 (take 4 r) of
                  None \<Rightarrow> None
                | Some hi \<Rightarrow>
                    if 0xD800 \<le> hi \<and> hi \<le> 0xDBFF then
                      (case low_surrogate (drop 4 r) of
                         Some lo \<Rightarrow>
                           prepend (utf8 (0x10000 + (hi - 0xD800) * 1024 + (lo - 0xDC00)))
                             (scan_string (drop 10 r))
                       | None \<Rightarrow> prepend (utf8 hi) (scan_string (drop 4 r)))
                    else prepend (utf8 hi) (scan_string (drop 4 r)))
             else
               (case simple_escape e of
                  None \<Rightarrow> None
                | Some x \<Rightarrow> prepend [x] (scan_string r)))
      else if (of_char c :: nat) < 0x20 then None
      else prepend [c] (scan_string cs))"


text \<open>Numbers: \<^verbatim>\<open>-?(0|[1-9][0-9]*)(\.[0-9]+)?([eE][-+]?[0-9]+)?\<close>. A number without fraction
  and exponent is an integer, any other the double nearest to the decimal.\<close>

definition int_part :: "string \<Rightarrow> (string \<times> string) option" where
  "int_part s =
     (case s of
        [] \<Rightarrow> None
      | c # cs \<Rightarrow>
          if c = CHR ''0'' then Some ([c], cs)
          else if is_digit c then Some (takeWhile is_digit s, dropWhile is_digit s)
          else None)"

definition frac_part :: "string \<Rightarrow> string \<times> string" where
  "frac_part s =
     (case s of
        c # cs \<Rightarrow>
          if c = CHR ''.'' \<and> takeWhile is_digit cs \<noteq> []
          then (takeWhile is_digit cs, dropWhile is_digit cs)
          else ([], s)
      | [] \<Rightarrow> ([], s))"

definition exp_part :: "string \<Rightarrow> int option \<times> string" where
  "exp_part s =
     (case s of
        c # cs \<Rightarrow>
          if c = CHR ''e'' \<or> c = CHR ''E'' then
            (let neg = (take 1 cs = ''-'');
                 ds = (if take 1 cs = ''-'' \<or> take 1 cs = ''+'' then drop 1 cs else cs)
             in if takeWhile is_digit ds = [] then (None, s)
                else (Some ((if neg then -1 else 1) * int (digits_val (takeWhile is_digit ds))),
                      dropWhile is_digit ds))
          else (None, s)
      | [] \<Rightarrow> (None, s))"

definition power10 :: "int \<Rightarrow> rat" where
  "power10 e = (if 0 \<le> e then 10 ^ nat e else 1 / 10 ^ nat (- e))"

definition parse_number :: "string \<Rightarrow> (json \<times> string) option" where
  "parse_number s =
     (let neg = (take 1 s = ''-''); s1 = (if neg then drop 1 s else s) in
        case int_part s1 of
          None \<Rightarrow> None
        | Some (ds, s2) \<Rightarrow>
            (case frac_part s2 of
               (fs, s3) \<Rightarrow>
                 (case exp_part s3 of
                    (ex, s4) \<Rightarrow>
                      if fs = [] \<and> ex = None
                      then Some (JInt ((if neg then -1 else 1) * int (digits_val ds)), s4)
                      else
                        Some (JFloat (round_double
                          ((if neg then -1 else 1)
                           * (of_nat (digits_val ds) + of_nat (digits_val fs) / 10 ^ length fs)
                           * power10 (case ex of None \<Rightarrow> 0 | Some x \<Rightarrow> x))), s4))))"

text \<open>\<^verbatim>\<open>dict(pairs)\<close>: a later binding of a key replaces the value of the earlier one,
  at the place of the earlier one.\<close>

fun dict_set :: "string \<Rightarrow> json \<Rightarrow> (string \<times> json) list \<Rightarrow> (string \<times> json) list" where
  "dict_set k v [] = [(k, v)]"
| "dict_set k v ((k', v') # rest) =
     (if k' = k then (k, v) # rest else (k', v') # dict_set k v rest)"

text \<open>
  The recursive descent. The first argument bounds the number of nested calls; twice
  the length of the text is enough, since every second call has read a character.
\<close>

fun parse_value :: "nat \<Rightarrow> string \<Rightarrow> (json \<times> string) option"
  and parse_elements :: "nat \<Rightarrow> string \<Rightarrow> json list \<Rightarrow> (json \<times> string) option"
  and parse_members :: "nat \<Rightarrow> string \<Rightarrow> (string \<times> json) list \<Rightarrow> (json \<times> string) option"
where
  "parse_value 0 s = None"
| "parse_value (Suc n) s =
     (case s of
        [] \<Rightarrow> None
      | c # cs \<Rightarrow>
          if c = dquote then map_option (\<lambda>(x, rest). (JStr x, rest)) (scan_string cs)
          else if c = CHR ''{'' then
            (case skip_ws cs of
               [] \<Rightarrow> None
             | d # ds \<Rightarrow> if d = CHR ''}'' then Some (JObj [], ds) else parse_members n (d # ds) [])
          else if c = CHR ''['' then
            (case skip_ws cs of
               [] \<Rightarrow> None
             | d # ds \<Rightarrow> if d = CHR '']'' then Some (JArr [], ds) else parse_elements n (d # ds) [])
          else if take 4 s = ''null'' then Some (JNull, drop 4 s)
          else if take 4 s = ''true'' then Some (JBool True, drop 4 s)
          else if take 5 s = ''false'' then Some (JBool False, drop 5 s)
          else if take 3 s = ''NaN'' then Some (JFloat NaN, drop 3 s)
          else if take 8 s = ''Infinity'' then Some (JFloat PlusInf, drop 8 s)
          else if take 9 s = ''-Infinity'' then Some (JFloat MinusInf, drop 9 s)
          else parse_number s)"
| "parse_elements 0 s acc = None"
| "parse_elements (Suc n) s acc =
     (case parse_value n s of
        None \<Rightarrow> None
      | Some (v, rest) \<Rightarrow>
          (case skip_ws rest of
             [] \<Rightarrow> None
           | d # ds \<Rightarrow>
               if d = CHR '']'' then Some (JArr (acc @ [v]), ds)
               else if d = CHR '','' then parse_elements n (skip_ws ds) (acc @ [v])
               else None))"
| "parse_members 0 s acc = None"
| "parse_members (Suc n) s acc =
     (case s of
        [] \<Rightarrow> None
      | q # s1 \<Rightarrow>
          if q \<noteq> dquote then None
          else
            (case scan_string s1 of
               None \<Rightarrow> None
             | Some (k, s2) \<Rightarrow>
                 (case skip_ws s2 of
                    [] \<Rightarrow> None
                  | c # s3 \<Rightarrow>
                      if c \<noteq> CHR '':'' then None
                      else
                        (case parse_value n (skip_ws s3) of
                           None \<Rightarrow> None
                         | Some (v, rest) \<Rightarrow>
                             (case skip_ws rest of
                                [] \<Rightarrow> None
                              | d # ds \<Rightarrow>
                                  if d = CHR ''}'' then Some (JObj (dict_set k v acc), ds)
                                  else if d = CHR '','' then
                                    parse_members n (skip_ws ds) (dict_set k v acc)
                                  else None)))))"

definition json_loads :: "string \<Rightarrow> json option" where
  "json_loads s =
     (case parse_value (2 * length s + 2) (skip_ws s) of
        None \<Rightarrow> None
      | Some (v, rest) \<Rightarrow> if skip_ws rest = [] then Some v else None)"

section \<open>Example data\<close>

text \<open>Reports, surroundings and replies used to instantiate the properties below.\<close>

definition example_report :: "nat \<Rightarrow> string \<Rightarrow> json \<Rightarrow> report" where
  "example_report i n a =
     \<lparr>student_id = i, student_name = n, grade = ''Class 4'', subject = ''Mathematics'',
      exam_date = ''2024-12-15'', original_remark = ''Needs support'',
      analysis_date = ''2025-01-01T12:00:00'', analysis = a\<rparr>"

definition performance_only :: "json list \<Rightarrow> json" where
  "performance_only vs = JObj [(''academic_performance'', JObj (zip metric_names vs))]"

definition helper_only :: json where
  "helper_only =
     JObj [(''multi_grade_considerations'', JObj [(''can_help_younger_students'', JBool True)])]"

text \<open>Means of exactly 7.5, exactly 5.5, and 5.4.\<close>

definition boundary_reports :: "report list" where
  "boundary_reports =
     [example_report 1 ''Kavya'' (performance_only [JFloat (Finite (15 / 2)), JFloat (Finite (15 / 2)), JFloat (Finite (15 / 2)), JFloat (Finite (15 / 2)), JFloat (Finite (15 / 2))]),
      example_report 2 ''Rohan'' (performance_only [JFloat (Finite (11 / 2)), JFloat (Finite (11 / 2)), JFloat (Finite (11 / 2)), JFloat (Finite (11 / 2)), JFloat (Finite (11 / 2))]),
      example_report 3 ''Aman'' (performance_only [JInt 5, JInt 5, JInt 5, JInt 6, JInt 6])]"

text \<open>Two peer helpers and three students with low scores.\<close>

definition low_scores :: json where
  "low_scores = performance_only [JInt 4, JInt 5, JInt 4, JInt 5, JInt 4]"

definition scenario_c :: "report list" where
  "scenario_c =
     [example_report 1 ''A'' helper_only, example_report 2 ''B'' helper_only,
      example_report 3 ''X'' low_scores, example_report 4 ''Y'' low_scores,
      example_report 5 ''Z'' low_scores]"

text \<open>One student with middling scores and no flag.\<close>

definition lone_student :: "report list" where
  "lone_student =
     [example_report 1 ''Arjun'' (performance_only [JInt 7, JInt 6, JInt 5, JInt 6, JInt 7])]"

text \<open>A class in which every conditional category has a member: Meera can help
  younger students; Ravi has low scores, a short attention span, a challenge of high
  severity, and needs individual attention.\<close>

definition ravi_analysis :: json where
  "ravi_analysis = JObj
     [(''student_profile'', JObj [(''attention_span'', JStr ''Short'')]),
      (''academic_performance'', JObj (zip metric_names [JInt 4, JInt 5, JInt 4, JInt 5, JInt 4])),
      (''multi_grade_considerations'', JObj [(''requires_individualized_attention'', JBool True)]),
      (''detailed_challenges'', JArr
         [JObj [(''challenge'', JStr ''Word problems''), (''severity'', JStr ''High'')]])]"

definition mixed_class :: "report list" where
  "mixed_class = [example_report 1 ''Meera'' helper_only, example_report 2 ''Ravi'' ravi_analysis]"

text \<open>Whether a line is among the directives that were produced.\<close>

definition emitted :: "string \<Rightarrow> py_error + string list \<Rightarrow> bool" where
  "emitted line res = (case res of Inl e \<Rightarrow> False | Inr out \<Rightarrow> line \<in> set out)"

text \<open>A capability that gives the same reply to every call; a clock that advances by
  one second with every reading; surroundings in which \<^verbatim>\<open>Retry.if_transient_error\<close>
  raises and the capability would raise too.\<close>

definition always :: "ai_outcome \<Rightarrow> capability" where
  "always r = (\<lambda>pr cfg. r)"

definition ticking :: "nat \<Rightarrow> datetime" where
  "ticking n =
     \<lparr>year = 2025, month = 1, day = 15, hour = 10, minute = 30, second = n, microsecond = 0\<rparr>"

definition offline_env :: env where
  "offline_env =
     \<lparr>retry_attribute = None, loads = json_loads, capability_at = (\<lambda>i. always Raised),
      now = ticking, temp_dir = ''/tmp/sahayak'', charts_and_pdf_ok = (\<lambda>rs. True),
      path_exists = (\<lambda>f. True)\<rparr>"

text \<open>The reply \<^verbatim>\<open>{"academic_performance": 7}\<close>.\<close>

definition malformed_reply :: string where
  "malformed_reply = ''{'' @ [dquote] @ ''academic_performance'' @ [dquote] @ '': 7}''"

definition priya_without_subject :: student_record where
  "priya_without_subject = priya(''subject'' := None)"

subsection \<open>Incomplete records\<close>

text \<open>A record lacks a prompt field when one of the four fields that the prompt
  reads is absent. The replies of the surroundings are all true values when no text
  that the capability returns parses to a false value.\<close>

definition lacks_prompt_field :: "student_record \<Rightarrow> bool" where
  "lacks_prompt_field d =
     (d ''name'' = None \<or> d ''grade'' = None \<or> d ''subject'' = None \<or> d ''remark'' = None)"

definition truthy_replies :: "env \<Rightarrow> bool" where
  "truthy_replies e =
     (\<forall>p i pr t a. retry_attribute e = Some p
        \<longrightarrow> capability_at e i pr (retry_with p) = Text t
        \<longrightarrow> loads e (clean_response t) = Some a \<longrightarrow> truthy a)"

section \<open>Properties\<close>

subsection \<open>The fallback analysis\<close>

lemma fallback_schema_valid: "schema_valid (fallback_of g n)"
  by (simp add: schema_valid_def sections_def fallback_of_def valid_profile_def valid_performance_def
      valid_considerations_def valid_strength_def valid_challenge_def valid_intervention_def
      valid_summary_def str_fields_def list_of_def is_str_def metric_names_def valid_score_def)

lemma fallback_complete: "complete (fallback_of g n)"
  by (simp add: complete_def sections_def fallback_of_def)

lemma fallback_scores:
  "metric_scores (fallback_of g n) = Some [6, 6, 5, 6, 6]"
  by (simp add: metric_scores_def section_of_def fallback_of_def metric_names_def) 

lemma fallback_labels:
  "entry_of ''student_profile'' ''learning_pace'' (fallback_of g n) = Some (JStr ''Average'')"
  "entry_of ''student_profile'' ''attention_span'' (fallback_of g n) = Some (JStr ''Medium'')"
  "entry_of ''student_profile'' ''independence_level'' (fallback_of g n) = Some (JStr ''Medium'')"
  by (simp_all add: entry_of_def section_of_def fallback_of_def)

lemma fallback_lists:
  "\<exists>s c i. section_of ''detailed_strengths'' (fallback_of g n) = Some (JArr [s]) \<and>
    section_of ''detailed_challenges'' (fallback_of g n) = Some (JArr [c]) \<and>
    section_of ''sahayak_interventions'' (fallback_of g n) = Some (JArr [i])"
  by (simp add: section_of_def fallback_of_def)

text \<open>
  Claim C2, as the code has it. For a record with a grade and a name, the fallback
  generator returns \<open>fallback_of grade name\<close>, a value that depends on nothing else. It is
  complete and valid against the schema; its five scores are 6, 6, 5, 6 and 6 in the
  order of \<open>metric_names\<close> (\<^verbatim>\<open>application_skills\<close> is 5); the learning pace is
  ``Average'', attention span and independence level are ``Medium''; and it has exactly
  one strength, one challenge and one intervention.
\<close>

theorem fallback_analysis_shape:
  assumes "d ''grade'' = Some g" and "d ''name'' = Some n"
  shows "create_enhanced_fallback_analysis d = Inr (fallback_of g n)
    \<and> complete (fallback_of g n) \<and> schema_valid (fallback_of g n)
    \<and> metric_scores (fallback_of g n) = Some [6, 6, 5, 6, 6]
    \<and> entry_of ''student_profile'' ''learning_pace'' (fallback_of g n) = Some (JStr ''Average'')
    \<and> entry_of ''student_profile'' ''attention_span'' (fallback_of g n) = Some (JStr ''Medium'')
    \<and> entry_of ''student_profile'' ''independence_level'' (fallback_of g n) = Some (JStr ''Medium'')
    \<and> (\<exists>s c i. section_of ''detailed_strengths'' (fallback_of g n) = Some (JArr [s])
          \<and> section_of ''detailed_challenges'' (fallback_of g n) = Some (JArr [c])
          \<and> section_of ''sahayak_interventions'' (fallback_of g n) = Some (JArr [i]))"
  using assms fallback_lists [of g n]
  by (simp add: create_enhanced_fallback_analysis_def getitem_def fallback_complete
      fallback_schema_valid fallback_scores fallback_labels)

theorem fallback_analysis_shape_witness:
  "create_enhanced_fallback_analysis arjun = Inr (fallback_of ''Class 4'' ''Arjun'')
   \<and> complete (fallback_of ''Class 4'' ''Arjun'')
   \<and> schema_valid (fallback_of ''Class 4'' ''Arjun'')
   \<and> metric_scores (fallback_of ''Class 4'' ''Arjun'') = Some [6, 6, 5, 6, 6]"
proof -
  have "arjun ''grade'' = Some ''Class 4''" and "arjun ''name'' = Some ''Arjun''"
    by (simp_all add: arjun_def demo_record_def)
  from fallback_analysis_shape [OF this] show ?thesis by simp
qed

text \<open>The claim says 6 for every metric; for the first demo record the score of
  \<^verbatim>\<open>application_skills\<close> is 5.\<close>

theorem fallback_scores_counterexample:
  "create_enhanced_fallback_analysis arjun = Inr (fallback_of ''Class 4'' ''Arjun'')
   \<and> entry_of ''academic_performance'' ''application_skills'' (fallback_of ''Class 4'' ''Arjun'')
       = Some (JInt 5)"
  by (simp add: create_enhanced_fallback_analysis_def arjun_def demo_record_def getitem_def
      entry_of_def section_of_def fallback_of_def)

subsection \<open>The pass over the reports\<close>

lemma and_then_simps [simp]: "and_then (Inr x) f = f x" "and_then (Inl e) f = Inl e"
  by (simp_all add: and_then_def)

lemma and_then_eq_Inr: "and_then m f = Inr y \<longleftrightarrow> (\<exists>x. m = Inr x \<and> f x = Inr y)"
  by (cases m) auto

lemma py_get_Inr:
  "py_get m k d = Inr v \<Longrightarrow>
   \<exists>kvs. m = JObj kvs \<and> v = (case map_of kvs k of None \<Rightarrow> d | Some v \<Rightarrow> v)"
  by (cases m) auto

lemma py_in_section:
  "py_in k a = Inr True \<Longrightarrow> py_subscript a k = Inr v \<Longrightarrow> section_of k a = Some v"
  by (cases a) (auto simp: section_of_def split: option.splits)

lemma py_in_no_section:
  "py_in k a = Inr False \<Longrightarrow> section_of k a = None"
  by (cases a) (auto simp: section_of_def map_of_eq_None_iff)

lemma flag_set_absent: "section_of ''multi_grade_considerations'' a = None \<Longrightarrow> \<not> flag_set k a"
  by (simp add: flag_set_def entry_of_def)

lemma flag_set_present:
  "section_of ''multi_grade_considerations'' a = Some (JObj kvs) \<Longrightarrow>
   flag_set k a = truthy (case map_of kvs k of None \<Rightarrow> JBool False | Some v \<Rightarrow> v)"
  by (simp add: flag_set_def entry_of_def split: option.splits)

lemma identify_helpers_Inr:
  assumes "identify_helpers n a b = Inr b'"
  shows "b' =
     (let b1 = (if flag_set ''can_help_younger_students'' a
                then b\<lparr>peer_helpers := peer_helpers b @ [n]\<rparr> else b)
      in if flag_set ''requires_individualized_attention'' a
         then b1\<lparr>individual_attention_students := individual_attention_students b1 @ [n]\<rparr>
         else b1)"
proof -
  from assms obtain present where
    p: "py_in ''multi_grade_considerations'' a = Inr present"
    unfolding identify_helpers_def and_then_eq_Inr by blast
  show ?thesis
  proof (cases present)
    case False
    with p have "section_of ''multi_grade_considerations'' a = None"
      by (simp add: py_in_no_section)
    then have "\<not> flag_set ''can_help_younger_students'' a"
      "\<not> flag_set ''requires_individualized_attention'' a"
      by (simp_all add: flag_set_absent)
    moreover from assms p False have "b' = b" by (simp add: identify_helpers_def)
    ultimately show ?thesis by simp
  next
    case True
    from assms p True obtain mg c r where
      s: "py_subscript a ''multi_grade_considerations'' = Inr mg"
      and c: "py_get mg ''can_help_younger_students'' (JBool False) = Inr c"
      and r: "py_get mg ''requires_individualized_attention'' (JBool False) = Inr r"
      and b': "b' =
         (let b1 = (if truthy c then b\<lparr>peer_helpers := peer_helpers b @ [n]\<rparr> else b)
          in if truthy r
             then b1\<lparr>individual_attention_students := individual_attention_students b1 @ [n]\<rparr>
             else b1)"
      by (auto simp: identify_helpers_def and_then_eq_Inr Let_def)
    from py_get_Inr [OF c] obtain kvs where
      mg: "mg = JObj kvs"
      and cv: "c = (case map_of kvs ''can_help_younger_students'' of None \<Rightarrow> JBool False | Some v \<Rightarrow> v)"
      by blast
    from py_get_Inr [OF r] mg have
      rv: "r = (case map_of kvs ''requires_individualized_attention'' of None \<Rightarrow> JBool False | Some v \<Rightarrow> v)"
      by auto
    from p True s mg have sec: "section_of ''multi_grade_considerations'' a = Some (JObj kvs)"
      by (simp add: py_in_section)
    show ?thesis
      unfolding b' flag_set_present [OF sec] cv rv ..
  qed
qed

lemma identify_effect:
  assumes "identify_helpers n a b = Inr b'"
  shows "peer_helpers b' = peer_helpers b @ (if flag_set ''can_help_younger_students'' a then [n] else [])"
    and "individual_attention_students b' = individual_attention_students b @ (if flag_set ''requires_individualized_attention'' a then [n] else [])"
    and "high_performers b' = high_performers b"
    and "need_urgent_support b' = need_urgent_support b"
  unfolding identify_helpers_Inr [OF assms] by (simp_all add: Let_def)

lemma those_Some: "those xs = Some ys \<Longrightarrow> xs = map Some ys"
  by (induction xs arbitrary: ys) (auto split: option.splits)

lemma np_array_score: "score_of v = Some q \<Longrightarrow> np_array v = Some ([], [Finite q])"
  by (induction v rule: score_of.induct) auto

lemma those_np_array_scores:
  "list_all (\<lambda>v. score_of v \<noteq> None) vs \<Longrightarrow>
   those (map np_array vs) = Some (map (\<lambda>v. ([], [Finite (the (score_of v))])) vs)"
  by (induction vs) (auto simp: np_array_score)

lemma concat_singletons: "concat (map (\<lambda>v. [f v]) vs) = map f vs"
  by (induction vs) auto

lemma np_mean_scores:
  assumes "list_all (\<lambda>v. score_of v \<noteq> None) vs" "vs \<noteq> []"
    and "exactly_summable (map (\<lambda>v. Finite (the (score_of v))) vs)"
  shows "np_mean lib vs = Inr (Finite (sum_list (map (\<lambda>v. the (score_of v)) vs) / of_nat (length vs)))"
proof -
  obtain v vs' where vs: "vs = v # vs'" using assms(2) by (cases vs) auto
  have "those (map np_array vs) = Some (map (\<lambda>v. ([], [Finite (the (score_of v))])) vs)"
    using assms(1) by (rule those_np_array_scores)
  then have "np_array (JArr vs) = Some ([length vs], map (\<lambda>v. Finite (the (score_of v))) vs)"
    by (simp add: vs list_all_iff concat_singletons comp_def)
  then have arr: "np_array (JArr vs) = Some ([length vs], map (\<lambda>v. Finite (the (score_of v))) vs)" .
  have fp: "map finite_part (map (\<lambda>v. Finite (the (score_of v))) vs)
      = map (\<lambda>v. the (score_of v)) vs"
    by (induction vs) (simp_all add: finite_part_def)
  have "np_mean lib vs = Inr (Finite (sum_list (map finite_part (map (\<lambda>v. Finite (the (score_of v))) vs))
      / of_nat (length (map (\<lambda>v. Finite (the (score_of v))) vs))))"
    unfolding np_mean_def arr using assms(2,3) by (simp del: map_map)
  then show ?thesis unfolding fp by simp
qed

lemma sum_list_by_keys:
  fixes f :: "'v \<Rightarrow> rat"
  assumes "distinct (map fst ps)" "set (map fst ps) = set ks" "distinct ks"
  shows "sum_list (map (\<lambda>p. f (snd p)) ps) = sum_list (map (\<lambda>k. f (the (map_of ps k))) ks)"
proof -
  have "map_of ps (fst p) = Some (snd p)" if "p \<in> set ps" for p
    using assms(1) that by (cases p) simp
  then have "map (\<lambda>p. f (snd p)) ps = map (\<lambda>p. f (the (map_of ps (fst p)))) ps"
    by (intro map_cong) simp_all
  then have "sum_list (map (\<lambda>p. f (snd p)) ps) = sum_list (map (\<lambda>k. f (the (map_of ps k))) (map fst ps))"
    by (simp only: map_map comp_def)
  also have "\<dots> = sum (\<lambda>k. f (the (map_of ps k))) (set (map fst ps))"
    using assms(1) by (rule sum_list_distinct_conv_sum_set)
  also have "\<dots> = sum (\<lambda>k. f (the (map_of ps k))) (set ks)"
    using assms(2) by simp
  also have "\<dots> = sum_list (map (\<lambda>k. f (the (map_of ps k))) ks)"
    using assms(3) by (simp add: sum_list_distinct_conv_sum_set)
  finally show ?thesis .
qed

lemma distinct_metric_names: "distinct metric_names" "length metric_names = 5"
  by (simp_all add: metric_names_def)

text \<open>The five scores, read in the order of the dictionary, are the scores of
  \<open>metric_scores\<close> up to their order.\<close>

lemma metric_scores_dict:
  assumes "metric_scores a = Some qs"
  obtains ps where "section_of ''academic_performance'' a = Some (JObj ps)"
    and "list_all (\<lambda>v. score_of v \<noteq> None) (map snd ps)"
    and "length ps = 5"
    and "distinct (map fst ps)" and "set (map fst ps) = set metric_names"
    and "qs = map (\<lambda>k. the (score_of (the (map_of ps k)))) metric_names"
proof -
  from assms obtain ps where
    sec: "section_of ''academic_performance'' a = Some (JObj ps)"
    and d: "distinct (map fst ps)" and s: "set (map fst ps) = set metric_names"
    and th: "those (map (\<lambda>k. case map_of ps k of Some v \<Rightarrow> score_of v | None \<Rightarrow> None) metric_names) = Some qs"
    by (auto simp: metric_scores_def split: option.splits json.splits if_splits)
  from th have m: "map (\<lambda>k. case map_of ps k of Some v \<Rightarrow> score_of v | None \<Rightarrow> None) metric_names = map Some qs"
    by (rule those_Some)
  have num: "score_of v \<noteq> None" if "(k, v) \<in> set ps" for k v
  proof -
    from that d have mo: "map_of ps k = Some v" by simp
    from that s have "k \<in> set metric_names" by force
    then have "(case map_of ps k of Some v \<Rightarrow> score_of v | None \<Rightarrow> None) \<in> set (map Some qs)"
      using m by (metis (no_types, lifting) image_eqI set_map)
    then show ?thesis using mo by auto
  qed
  then have all: "list_all (\<lambda>v. score_of v \<noteq> None) (map snd ps)"
    by (auto simp: list_all_iff)
  have len: "length ps = 5"
  proof -
    have "length ps = card (set (map fst ps))" using d by (metis distinct_card length_map)
    also have "\<dots> = 5" using s distinct_metric_names by (metis distinct_card)
    finally show ?thesis .
  qed
  have qs: "qs = map (\<lambda>k. the (score_of (the (map_of ps k)))) metric_names"
  proof -
    have "map Some qs = map (\<lambda>k. Some (the (score_of (the (map_of ps k))))) metric_names"
      unfolding m [symmetric]
    proof (rule map_cong [OF refl])
      fix k assume "k \<in> set metric_names"
      then have "k \<in> set (map fst ps)" using s by simp
      then obtain v where kv: "(k, v) \<in> set ps" by auto
      with d have "map_of ps k = Some v" by simp
      with num [OF kv] show "(case map_of ps k of Some v \<Rightarrow> score_of v | None \<Rightarrow> None) = Some (the (score_of (the (map_of ps k))))"
        by auto
    qed
    then have "map Some qs = map Some (map (\<lambda>k. the (score_of (the (map_of ps k)))) metric_names)"
      by (simp add: comp_def)
    then show ?thesis by (metis inj_Some inj_map_eq_map)
  qed
  from sec all len d s qs show ?thesis by (rule that)
qed

lemma exactly_summable_iff:
  "exactly_summable (map Finite qs) =
     (length qs \<le> 2 ^ 20 \<and> list_all (\<lambda>q. of_int \<lfloor>1024 * q\<rfloor> = 1024 * q) qs
      \<and> sum_list (map abs qs) \<le> 2 ^ 43)"
  by (simp add: exactly_summable_def list_all_iff finite_part_def comp_def)

lemma metric_scores_mean:
  assumes "metric_scores a = Some qs" and "exactly_summable (map Finite qs)"
  shows "\<exists>ps. section_of ''academic_performance'' a = Some (JObj ps)
          \<and> np_mean lib (map snd ps) = Inr (Finite (sum_list qs / 5))"
proof -
  from assms(1) obtain ps where
    sec: "section_of ''academic_performance'' a = Some (JObj ps)"
    and all: "list_all (\<lambda>v. score_of v \<noteq> None) (map snd ps)"
    and len: "length ps = 5"
    and d: "distinct (map fst ps)" and s: "set (map fst ps) = set metric_names"
    and qs: "qs = map (\<lambda>k. the (score_of (the (map_of ps k)))) metric_names"
    by (rule metric_scores_dict)
  let ?ds = "map (\<lambda>v. the (score_of v)) (map snd ps)"
  have mo: "map_of ps (fst p) = Some (snd p)" if "p \<in> set ps" for p
    using d that by (cases p) simp
  have sub: "set ?ds \<subseteq> set qs"
  proof
    fix x assume "x \<in> set ?ds"
    then obtain p where p: "p \<in> set ps" "x = the (score_of (snd p))" by auto
    then have "fst p \<in> set metric_names" using s by force
    with p mo [OF p(1)] show "x \<in> set qs" unfolding qs by force
  qed
  have sum: "sum_list (map (\<lambda>v. f (the (score_of v))) (map snd ps))
      = sum_list (map f qs)" for f :: "rat \<Rightarrow> rat"
    unfolding qs
    using sum_list_by_keys [OF d s distinct_metric_names(1), of "\<lambda>v. f (the (score_of v))"]
    by (simp add: comp_def)
  have "exactly_summable (map Finite ?ds)"
    using assms(2) sub sum [of abs] len distinct_metric_names(2)
    unfolding exactly_summable_iff list_all_iff qs by (auto simp: comp_def)
  then have ex: "exactly_summable (map (\<lambda>v. Finite (the (score_of v))) (map snd ps))"
    by (simp add: comp_def)
  from len have ne: "map snd ps \<noteq> []" by auto
  have "np_mean lib (map snd ps) = Inr (Finite (sum_list qs / 5))"
    using np_mean_scores [OF all ne ex] sum [of "\<lambda>x. x"] len by simp
  with sec show ?thesis by blast
qed

lemma section_of_Some_py:
  "section_of k a = Some v \<Longrightarrow> py_in k a = Inr True \<and> py_subscript a k = Inr v"
  by (cases a) (auto simp: section_of_def dest: map_of_SomeD intro: rev_image_eqI)

text \<open>What the performance step does, when it does not raise, in terms of the band of
  the computed mean.\<close>

lemma categorize_Inr:
  assumes "categorize_performance lib n a b = Inr b'"
  shows "b' = (case code_band lib a of
                 High \<Rightarrow> b\<lparr>high_performers := high_performers b @ [n]\<rparr>
               | Urgent \<Rightarrow> b\<lparr>need_urgent_support := need_urgent_support b @ [n]\<rparr>
               | Mid \<Rightarrow> b)"
proof -
  from assms obtain present where
    p: "py_in ''academic_performance'' a = Inr present"
    unfolding categorize_performance_def and_then_eq_Inr by blast
  show ?thesis
  proof (cases present)
    case False
    with p have "section_of ''academic_performance'' a = None" by (simp add: py_in_no_section)
    then have "code_band lib a = Mid" by (simp add: code_band_def code_mean_def)
    moreover from assms p False have "b' = b" by (simp add: categorize_performance_def)
    ultimately show ?thesis by simp
  next
    case True
    from assms p True obtain perf vs m where
      s: "py_subscript a ''academic_performance'' = Inr perf"
      and v: "py_values perf = Inr vs"
      and m: "np_mean lib vs = Inr m"
      and b': "b' = (if ge m (15 / 2) then b\<lparr>high_performers := high_performers b @ [n]\<rparr>
                     else if lt m (11 / 2)
                     then b\<lparr>need_urgent_support := need_urgent_support b @ [n]\<rparr> else b)"
      by (auto simp: categorize_performance_def and_then_eq_Inr split: if_splits)
    from p True s have "section_of ''academic_performance'' a = Some perf"
      by (simp add: py_in_section)
    with v m have "code_mean lib a = Some m" by (simp add: code_mean_def)
    then show ?thesis unfolding b' by (simp add: code_band_def)
  qed
qed

lemma code_band_exact:
  assumes "metric_scores a = Some qs" and "exactly_summable (map Finite qs)"
  shows "code_band lib a =
     (if 15 / 2 \<le> sum_list qs / 5 then High else if sum_list qs / 5 < 11 / 2 then Urgent else Mid)"
proof -
  from metric_scores_mean [OF assms] obtain ps where
    sec: "section_of ''academic_performance'' a = Some (JObj ps)"
    and mean: "np_mean lib (map snd ps) = Inr (Finite (sum_list qs / 5))" by blast
  then have "code_mean lib a = Some (Finite (sum_list qs / 5))" by (simp add: code_mean_def)
  then show ?thesis by (simp add: code_band_def ge_def lt_def)
qed

lemma categorize_exact:
  assumes "metric_scores a = Some qs" and "exactly_summable (map Finite qs)"
  shows "\<exists>b'. categorize_performance lib n a b = Inr b'"
proof -
  from metric_scores_mean [OF assms] obtain ps where
    sec: "section_of ''academic_performance'' a = Some (JObj ps)"
    and mean: "np_mean lib (map snd ps) = Inr (Finite (sum_list qs / 5))" by blast
  from section_of_Some_py [OF sec] show ?thesis
    by (simp add: categorize_performance_def mean)
qed

lemma categorize_frame:
  assumes "categorize_performance lib n a b = Inr b'"
  shows "peer_helpers b' = peer_helpers b"
    and "individual_attention_students b' = individual_attention_students b"
    and "subject_specific_issues b' = subject_specific_issues b"
    and "attention_span_data b' = attention_span_data b"
    and "grade_distribution b' = grade_distribution b"
  unfolding categorize_Inr [OF assms] by (simp_all split: band.split)

lemma categorize_effect:
  assumes "categorize_performance lib n a b = Inr b'"
  shows "high_performers b' = high_performers b @ (if code_band lib a = High then [n] else [])"
    and "need_urgent_support b' = need_urgent_support b @ (if code_band lib a = Urgent then [n] else [])"
  unfolding categorize_Inr [OF assms] by (simp_all split: band.split)

lemma track_frame:
  assumes "track_attention n a b = Inr b'"
  shows "peer_helpers b' = peer_helpers b"
    and "individual_attention_students b' = individual_attention_students b"
    and "high_performers b' = high_performers b"
    and "need_urgent_support b' = need_urgent_support b"
  using assms
  by (auto simp: track_attention_def and_then_eq_Inr split: if_splits)

lemma add_challenges_frame:
  "add_challenges n s items b = Inr b' \<Longrightarrow>
   peer_helpers b' = peer_helpers b
   \<and> individual_attention_students b' = individual_attention_students b
   \<and> high_performers b' = high_performers b
   \<and> need_urgent_support b' = need_urgent_support b"
  by (induction items arbitrary: b) (auto simp: and_then_eq_Inr)

lemma collect_frame:
  assumes "collect_issues n s a b = Inr b'"
  shows "peer_helpers b' = peer_helpers b"
    and "individual_attention_students b' = individual_attention_students b"
    and "high_performers b' = high_performers b"
    and "need_urgent_support b' = need_urgent_support b"
  using assms
  by (auto simp: collect_issues_def and_then_eq_Inr dest: add_challenges_frame split: if_splits)

lemma process_report_steps:
  assumes "process_report lib r b = Inr b'"
  obtains b1 b2 b3 where
    "categorize_performance lib (student_name r) (analysis r)
       (b\<lparr>grade_distribution := append_to (=) (grade r) (student_name r) (grade_distribution b)\<rparr>) = Inr b1"
    and "identify_helpers (student_name r) (analysis r) b1 = Inr b2"
    and "track_attention (student_name r) (analysis r) b2 = Inr b3"
    and "collect_issues (student_name r) (subject r) (analysis r) b3 = Inr b'"
  using assms by (auto simp: process_report_def Let_def and_then_eq_Inr)

lemma process_report_lists:
  assumes "process_report lib r b = Inr b'"
  shows "peer_helpers b' = peer_helpers b @
           (if flag_set ''can_help_younger_students'' (analysis r) then [student_name r] else [])"
    and "individual_attention_students b' = individual_attention_students b @
           (if flag_set ''requires_individualized_attention'' (analysis r) then [student_name r] else [])"
    and "high_performers b' = high_performers b @
           (if code_band lib (analysis r) = High then [student_name r] else [])"
    and "need_urgent_support b' = need_urgent_support b @
           (if code_band lib (analysis r) = Urgent then [student_name r] else [])"
proof -
  from assms obtain b1 b2 b3 where
    c: "categorize_performance lib (student_name r) (analysis r)
          (b\<lparr>grade_distribution := append_to (=) (grade r) (student_name r) (grade_distribution b)\<rparr>) = Inr b1"
    and i: "identify_helpers (student_name r) (analysis r) b1 = Inr b2"
    and t: "track_attention (student_name r) (analysis r) b2 = Inr b3"
    and k: "collect_issues (student_name r) (subject r) (analysis r) b3 = Inr b'"
    by (rule process_report_steps)
  show "peer_helpers b' = peer_helpers b @
           (if flag_set ''can_help_younger_students'' (analysis r) then [student_name r] else [])"
    using categorize_frame(1) [OF c] identify_effect(1) [OF i] track_frame(1) [OF t]
      collect_frame(1) [OF k] by simp
  show "individual_attention_students b' = individual_attention_students b @
           (if flag_set ''requires_individualized_attention'' (analysis r) then [student_name r] else [])"
    using categorize_frame(2) [OF c] identify_effect(2) [OF i] track_frame(2) [OF t]
      collect_frame(2) [OF k] by simp
  show "high_performers b' = high_performers b @
           (if code_band lib (analysis r) = High then [student_name r] else [])"
    using categorize_effect(1) [OF c] identify_effect(3) [OF i] track_frame(3) [OF t]
      collect_frame(3) [OF k] by simp
  show "need_urgent_support b' = need_urgent_support b @
           (if code_band lib (analysis r) = Urgent then [student_name r] else [])"
    using categorize_effect(2) [OF c] identify_effect(4) [OF i] track_frame(4) [OF t]
      collect_frame(4) [OF k] by simp
qed

lemma process_reports_lists:
  "process_reports lib rs b = Inr b' \<Longrightarrow>
   peer_helpers b' = peer_helpers b @
     map student_name (filter (\<lambda>r. flag_set ''can_help_younger_students'' (analysis r)) rs)
   \<and> individual_attention_students b' = individual_attention_students b @
     map student_name (filter (\<lambda>r. flag_set ''requires_individualized_attention'' (analysis r)) rs)
   \<and> high_performers b' = high_performers b @
     map student_name (filter (\<lambda>r. code_band lib (analysis r) = High) rs)
   \<and> need_urgent_support b' = need_urgent_support b @
     map student_name (filter (\<lambda>r. code_band lib (analysis r) = Urgent) rs)"
proof (induction rs arbitrary: b)
  case Nil
  then show ?case by simp
next
  case (Cons r rs)
  then obtain b1 where s: "process_report lib r b = Inr b1"
    and rest: "process_reports lib rs b1 = Inr b'"
    by (auto simp: and_then_eq_Inr)
  from Cons.IH [OF rest] process_report_lists [OF s] show ?case by simp
qed


lemma boundary_scores:
  "metric_scores (performance_only [JFloat (Finite (15 / 2)), JFloat (Finite (15 / 2)),
      JFloat (Finite (15 / 2)), JFloat (Finite (15 / 2)), JFloat (Finite (15 / 2))])
    = Some [15 / 2, 15 / 2, 15 / 2, 15 / 2, 15 / 2]"
  "metric_scores (performance_only [JFloat (Finite (11 / 2)), JFloat (Finite (11 / 2)),
      JFloat (Finite (11 / 2)), JFloat (Finite (11 / 2)), JFloat (Finite (11 / 2))])
    = Some [11 / 2, 11 / 2, 11 / 2, 11 / 2, 11 / 2]"
  "metric_scores (performance_only [JInt 5, JInt 5, JInt 5, JInt 6, JInt 6]) = Some [5, 5, 5, 6, 6]"
  by (simp_all add: performance_only_def metric_scores_def section_of_def metric_names_def)

lemma boundary_summable:
  "exactly_summable (map Finite [15 / 2, 15 / 2, 15 / 2, 15 / 2, 15 / 2 :: rat])"
  "exactly_summable (map Finite [11 / 2, 11 / 2, 11 / 2, 11 / 2, 11 / 2 :: rat])"
  "exactly_summable (map Finite [5, 5, 5, 6, 6 :: rat])"
  unfolding exactly_summable_iff by simp_all

lemma performance_only_processed:
  assumes "metric_scores (performance_only vs) = Some qs" "exactly_summable (map Finite qs)"
  shows "\<exists>b'. process_report lib (example_report i n (performance_only vs)) b = Inr b'"
proof -
  from categorize_exact [OF assms] obtain b1 where
    "categorize_performance lib n (performance_only vs)
       (b\<lparr>grade_distribution := append_to (=) ''Class 4'' n (grade_distribution b)\<rparr>) = Inr b1"
    by blast
  then show ?thesis
    by (simp add: process_report_def Let_def example_report_def)
      (simp add: performance_only_def identify_helpers_def track_attention_def collect_issues_def)
qed

lemma boundary_reports_pass: "\<exists>b. process_reports plain_library boundary_reports empty_buckets = Inr b"
proof -
  obtain b1 where 1: "process_report plain_library (boundary_reports ! 0) empty_buckets = Inr b1"
    using performance_only_processed [OF boundary_scores(1) boundary_summable(1)]
    unfolding boundary_reports_def by fastforce
  obtain b2 where 2: "process_report plain_library (boundary_reports ! 1) b1 = Inr b2"
    using performance_only_processed [OF boundary_scores(2) boundary_summable(2)]
    unfolding boundary_reports_def by fastforce
  obtain b3 where 3: "process_report plain_library (boundary_reports ! 2) b2 = Inr b3"
    using performance_only_processed [OF boundary_scores(3) boundary_summable(3)]
    unfolding boundary_reports_def by fastforce
  have "boundary_reports = [boundary_reports ! 0, boundary_reports ! 1, boundary_reports ! 2]"
    by (simp add: boundary_reports_def)
  then have "process_reports plain_library boundary_reports empty_buckets = Inr b3"
    using 1 2 3 by (metis and_then_simps(1) process_reports.simps)
  then show ?thesis by blast
qed


lemma fallback_mean: "five_metric_mean (fallback_of g n) = 29 / 5"
  by (simp add: five_metric_mean_def fallback_scores)

lemma fallback_flags:
  "\<not> flag_set ''can_help_younger_students'' (fallback_of g n)"
  "flag_set ''requires_individualized_attention'' (fallback_of g n)"
  by (simp_all add: flag_set_def entry_of_def section_of_def fallback_of_def)

lemma fallback_summable: "exactly_summable (map Finite [6, 6, 5, 6, 6 :: rat])"
  unfolding exactly_summable_iff by simp

lemma fallback_band: "code_band lib (fallback_of g n) = Mid"
  using code_band_exact [OF fallback_scores fallback_summable, of lib g n] by simp

lemma fallback_processed: "\<exists>b'. process_report lib (r\<lparr>analysis := fallback_of g n\<rparr>) b = Inr b'"
proof -
  from categorize_exact [OF fallback_scores fallback_summable] obtain b1 where
    "categorize_performance lib (student_name r) (fallback_of g n)
       (b\<lparr>grade_distribution := append_to (=) (grade r) (student_name r) (grade_distribution b)\<rparr>)
     = Inr b1" by blast
  then show ?thesis
    by (simp add: process_report_def Let_def)
      (simp add: fallback_of_def identify_helpers_def track_attention_def collect_issues_def)
qed

text \<open>
  Claim C10. A student whose analysis is the fallback has a five-metric mean of 5.8 and
  is in the mid band; the loop body succeeds and leaves the high, urgent and peer helper
  buckets as they were, and appends the student to the individual attention bucket.
\<close>

theorem fallback_student_buckets:
  assumes "analysis r = fallback_of g n"
  shows "five_metric_mean (analysis r) = 29 / 5 \<and> band_of r = Mid
    \<and> (\<exists>b'. process_report lib r b = Inr b'
          \<and> high_performers b' = high_performers b
          \<and> need_urgent_support b' = need_urgent_support b
          \<and> peer_helpers b' = peer_helpers b
          \<and> individual_attention_students b' = individual_attention_students b @ [student_name r])"
proof -
  have r: "r\<lparr>analysis := fallback_of g n\<rparr> = r" using assms by simp
  from fallback_processed [where r = r and g = g and n = n and b = b and lib = lib]
  obtain b' where p: "process_report lib r b = Inr b'"
    unfolding r by blast
  from process_report_lists [OF p] p
  show ?thesis by (auto simp: assms fallback_mean fallback_flags fallback_band band_of_def band_of_mean_def)
qed

theorem fallback_student_buckets_witness:
  "five_metric_mean (fallback_of ''Class 4'' ''Arjun'') = 29 / 5
   \<and> (\<exists>b'. process_report plain_library
              (example_report 1 ''Arjun'' (fallback_of ''Class 4'' ''Arjun'')) empty_buckets = Inr b'
         \<and> high_performers b' = [] \<and> need_urgent_support b' = [] \<and> peer_helpers b' = []
         \<and> individual_attention_students b' = [''Arjun''])"
  using fallback_student_buckets [of "example_report 1 ''Arjun'' (fallback_of ''Class 4'' ''Arjun'')"
      "''Class 4''" "''Arjun''" plain_library empty_buckets]
  by (simp add: example_report_def empty_buckets_def)

subsection \<open>The directives\<close>

lemma process_reports_total:
  "(\<And>r b. r \<in> set rs \<Longrightarrow> \<exists>b'. process_report lib r b = Inr b') \<Longrightarrow>
   \<exists>b'. process_reports lib rs b = Inr b'"
proof (induction rs arbitrary: b)
  case Nil
  then show ?case by simp
next
  case (Cons r rs)
  from Cons.prems [of r b] obtain b1 where 1: "process_report lib r b = Inr b1" by auto
  from Cons.IH [of b1] Cons.prems obtain b2 where "process_reports lib rs b1 = Inr b2" by auto
  with 1 show ?case by simp
qed

lemma generate_Inr:
  "generate_class_strategic_insights lib rs = Inr out \<longleftrightarrow>
     (\<exists>b. process_reports lib rs empty_buckets = Inr b \<and> out = render_insights lib (length rs) b)"
  by (auto simp: generate_class_strategic_insights_def and_then_eq_Inr)

lemma buckets_of_reports:
  assumes "process_reports lib rs empty_buckets = Inr b"
  shows "peer_helpers b = helpers_of rs" "need_urgent_support b = at_risk_of lib rs"
    and "individual_attention_students b =
      map student_name (filter (\<lambda>r. flag_set ''requires_individualized_attention'' (analysis r)) rs)"
  using process_reports_lists [OF assms]
  by (simp_all add: empty_buckets_def helpers_of_def at_risk_of_def)

lemma pairing_loop_zip:
  "pairing_loop i helpers need = map (\<lambda>(h, s). pair_line h s) (zip helpers (drop i need))"
proof (induction helpers arbitrary: i)
  case Nil
  then show ?case by simp
next
  case (Cons h rest)
  show ?case
  proof (cases "i < length need")
    case True
    then have "drop i need = need ! i # drop (Suc i) need" by (simp add: Cons_nth_drop_Suc)
    with True Cons.IH [of "Suc i"] show ?thesis by simp
  next
    case False
    with Cons.IH [of "Suc i"] show ?thesis by simp
  qed
qed

lemma zip_by_index:
  "map (\<lambda>(h, s). f h s) (zip xs ys) = map (\<lambda>i. f (xs ! i) (ys ! i)) [0..<min (length xs) (length ys)]"
  by (rule nth_equalityI) auto

lemma pairing_loop_index:
  "pairing_loop 0 helpers need
     = map (\<lambda>i. pair_line (helpers ! i) (need ! i)) [0..<min (length helpers) (length need)]"
  by (simp add: pairing_loop_zip zip_by_index)

subsubsection \<open>Which lines are pairing directives\<close>

lemma pairing_prefix: "startswith (item (''PAIR: '' @ x)) (''   '' @ bullet @ '' PAIR: '')"
  by (simp add: startswith_def item_def bullet_def)

lemma pair_line_is_pairing: "is_pairing_directive (pair_line h s)"
  by (simp add: is_pairing_directive_def pair_line_def pairing_prefix)
    (simp add: startswith_def item_def)

lemma heading_not_pairing: "\<not> is_pairing_directive (CHR ''<'' # x)"
  by (simp add: is_pairing_directive_def startswith_def bullet_def)

lemma item_not_pairing:
  "c \<noteq> CHR ''P'' \<Longrightarrow> \<not> is_pairing_directive (item (c # x))"
  by (simp add: is_pairing_directive_def startswith_def bullet_def item_def)

lemma grade_line_not_pairing: "\<not> is_pairing_directive (grade_line gs)"
  by (simp add: is_pairing_directive_def grade_line_def item_def startswith_def)

lemma setup_no_pairing: "filter is_pairing_directive (setup_lines t a) = []"
  by (simp add: setup_lines_def heading_not_pairing item_not_pairing)

lemma grades_no_pairing: "filter is_pairing_directive (grade_lines gd) = []"
  by (simp add: grade_lines_def filter_map comp_def grade_line_not_pairing)

lemma pairing_loop_all_pairing:
  "filter is_pairing_directive (pairing_loop i hs need) = pairing_loop i hs need"
  by (induction hs arbitrary: i) (simp_all add: pair_line_is_pairing)

lemma pairing_loop_nobody: "pairing_loop i hs [] = []"
  by (induction hs arbitrary: i) simp_all

lemma peer_pairing:
  "filter is_pairing_directive (peer_tutoring_lines hs need)
     = map (\<lambda>i. pair_line (hs ! i) (need ! i)) [0..<min (length hs) (length need)]"
proof -
  have "filter is_pairing_directive (peer_tutoring_lines hs need) = pairing_loop 0 hs need"
    by (auto simp: peer_tutoring_lines_def heading_not_pairing item_not_pairing
        pairing_loop_all_pairing pairing_loop_nobody)
  then show ?thesis unfolding pairing_loop_index .
qed

lemma schedule_no_pairing: "filter is_pairing_directive (schedule_lines a) = []"
  by (simp add: schedule_lines_def heading_not_pairing item_not_pairing)

lemma subject_lines_no_pairing: "filter is_pairing_directive (subject_lines lib si) = []"
  by (simp add: subject_lines_def Let_def heading_not_pairing item_not_pairing)

lemma subject_no_pairing: "filter is_pairing_directive (subject_intervention_lines lib ssi) = []"
  unfolding subject_intervention_lines_def
  by (induction ssi) (simp_all add: subject_lines_no_pairing)

lemma attention_no_pairing: "filter is_pairing_directive (attention_lines asd) = []"
  by (cases asd; cases "lookup_key (JStr ''Short'') asd")
    (auto simp: attention_lines_def heading_not_pairing item_not_pairing)

lemma layout_no_pairing: "filter is_pairing_directive (layout_lines a) = []"
  by (simp add: layout_lines_def heading_not_pairing item_not_pairing)

lemma tracking_no_pairing: "filter is_pairing_directive (tracking_lines n h) = []"
  by (simp add: tracking_lines_def heading_not_pairing item_not_pairing)

lemma materials_no_pairing: "filter is_pairing_directive materials_lines = []"
  by (simp add: materials_lines_def heading_not_pairing item_not_pairing)

lemma render_pairing:
  "filter is_pairing_directive (render_insights lib t b)
     = map (\<lambda>i. pair_line (peer_helpers b ! i) (need_urgent_support b ! i))
         [0..<min (length (peer_helpers b)) (length (need_urgent_support b))]"
  by (simp add: render_insights_def setup_no_pairing grades_no_pairing peer_pairing
      schedule_no_pairing subject_no_pairing attention_no_pairing layout_no_pairing
      tracking_no_pairing materials_no_pairing)

text \<open>
  Claim C5. In the output of \<^verbatim>\<open>generate_class_strategic_insights\<close>, the pairing
  directives are, in this order, one line for each index below the length of the shorter
  of the two lists, the peer helpers and the students at risk, both in input order: the
  line that pairs the helper at that index with the student at that index. No other
  line of the output is a pairing directive, so that a student at risk beyond the last
  helper is in none.
\<close>

theorem positional_pairing:
  assumes "generate_class_strategic_insights lib rs = Inr out"
  shows "filter is_pairing_directive out =
      map (\<lambda>i. ''   '' @ bullet @ '' PAIR: '' @ helpers_of rs ! i @ '' (tutor) + ''
                 @ at_risk_of lib rs ! i
                 @ '' (learner) - Meet Tuesdays & Thursdays 11:30-11:50 AM, back-left corner desk'')
        [0..<min (length (helpers_of rs)) (length (at_risk_of lib rs))]
    \<and> (\<exists>b. process_reports lib rs empty_buckets = Inr b
          \<and> peer_helpers b = helpers_of rs \<and> need_urgent_support b = at_risk_of lib rs)"
proof -
  from assms obtain b where b: "process_reports lib rs empty_buckets = Inr b"
    and out: "out = render_insights lib (length rs) b"
    unfolding generate_Inr by blast
  note bs = buckets_of_reports [OF b]
  have "filter is_pairing_directive out =
      map (\<lambda>i. pair_line (helpers_of rs ! i) (at_risk_of lib rs ! i))
        [0..<min (length (helpers_of rs)) (length (at_risk_of lib rs))]"
    unfolding out render_pairing bs(1,2) ..
  then show ?thesis using b bs(1,2) by (simp add: pair_line_def item_def)
qed

lemma helper_only_processed:
  "\<exists>b'. process_report lib (example_report i n helper_only) b = Inr b'"
  by (simp add: process_report_def Let_def example_report_def helper_only_def
      categorize_performance_def identify_helpers_def track_attention_def collect_issues_def)

lemma low_scores_scores: "metric_scores low_scores = Some [4, 5, 4, 5, 4]"
  by (simp add: low_scores_def performance_only_def metric_scores_def section_of_def metric_names_def)

lemma low_scores_summable: "exactly_summable (map Finite [4, 5, 4, 5, 4 :: rat])"
  unfolding exactly_summable_iff by simp

lemma low_scores_processed:
  "\<exists>b'. process_report lib (example_report i n low_scores) b = Inr b'"
  using performance_only_processed [OF low_scores_scores [unfolded low_scores_def] low_scores_summable]
  by (simp add: low_scores_def)

lemma helper_only_band: "code_band lib helper_only = Mid"
  by (simp add: code_band_def code_mean_def section_of_def helper_only_def)

lemma low_scores_band: "code_band lib low_scores = Urgent"
  using code_band_exact [OF low_scores_scores low_scores_summable, of lib] by simp

lemma scenario_c_lists:
  "helpers_of scenario_c = [''A'', ''B'']" "at_risk_of lib scenario_c = [''X'', ''Y'', ''Z'']"
proof -
  have "flag_set ''can_help_younger_students'' helper_only"
    "\<not> flag_set ''can_help_younger_students'' low_scores"
    by (simp_all add: flag_set_def entry_of_def section_of_def helper_only_def low_scores_def
        performance_only_def)
  then show "helpers_of scenario_c = [''A'', ''B'']"
    by (simp add: helpers_of_def scenario_c_def example_report_def)
  show "at_risk_of lib scenario_c = [''X'', ''Y'', ''Z'']"
    by (simp add: at_risk_of_def scenario_c_def example_report_def helper_only_band low_scores_band)
qed

lemma scenario_c_output: "\<exists>out. generate_class_strategic_insights lib scenario_c = Inr out"
proof -
  have "\<exists>b'. process_reports lib scenario_c empty_buckets = Inr b'"
    by (rule process_reports_total)
      (auto simp: scenario_c_def helper_only_processed low_scores_processed)
  then show ?thesis unfolding generate_Inr by blast
qed

theorem positional_pairing_witness:
  "\<exists>out. generate_class_strategic_insights plain_library scenario_c = Inr out
     \<and> filter is_pairing_directive out
        = [''   '' @ bullet @ '' PAIR: A (tutor) + X (learner) - Meet Tuesdays & Thursdays 11:30-11:50 AM, back-left corner desk'',
           ''   '' @ bullet @ '' PAIR: B (tutor) + Y (learner) - Meet Tuesdays & Thursdays 11:30-11:50 AM, back-left corner desk'']"
proof -
  from scenario_c_output obtain out where
    out: "generate_class_strategic_insights plain_library scenario_c = Inr out" by blast
  from positional_pairing [OF out] have
    "filter is_pairing_directive out
        = [''   '' @ bullet @ '' PAIR: A (tutor) + X (learner) - Meet Tuesdays & Thursdays 11:30-11:50 AM, back-left corner desk'',
           ''   '' @ bullet @ '' PAIR: B (tutor) + Y (learner) - Meet Tuesdays & Thursdays 11:30-11:50 AM, back-left corner desk'']"
    by (simp add: scenario_c_lists upt_rec)
  with out show ?thesis by blast
qed

subsection \<open>The categories of the class insights\<close>

lemma item_not_heading: "\<not> is_heading (item s)"
  by (simp add: is_heading_def startswith_def item_def)

lemma heading_is_heading: "is_heading (CHR ''<'' # CHR ''b'' # CHR ''>'' # x)"
  by (simp add: is_heading_def startswith_def)

lemma setup_headings:
  "filter is_heading (setup_lines t a) = [''<b>IMMEDIATE CLASSROOM SETUP (Implement Tomorrow):</b>'']"
  by (simp add: setup_lines_def item_not_heading heading_is_heading)

lemma grades_headings: "filter is_heading (grade_lines gd) = []"
  by (simp add: grade_lines_def grade_line_def filter_map comp_def item_not_heading)

lemma pairing_loop_headings: "filter is_heading (pairing_loop i hs need) = []"
  by (induction hs arbitrary: i) (simp_all add: pair_line_def item_not_heading)

lemma peer_headings:
  "filter is_heading (peer_tutoring_lines hs need)
     = (if hs \<noteq> [] \<and> need \<noteq> [] then [''<b>PEER TUTORING SYSTEM (Start This Week):</b>''] else [])"
  by (simp add: peer_tutoring_lines_def pairing_loop_headings item_not_heading heading_is_heading)

lemma schedule_headings:
  "filter is_heading (schedule_lines a) = [''<b>DAILY SCHEDULE OPTIMIZATION (Exact Times):</b>'']"
  by (simp add: schedule_lines_def item_not_heading heading_is_heading)

lemma subject_lines_headings:
  "filter is_heading (subject_lines lib si)
     = (if filter is_high (snd si) \<noteq> []
        then [''<b>URGENT '' @ str_upper lib (fst si) @ '' INTERVENTIONS:</b>''] else [])"
  by (simp add: subject_lines_def Let_def item_not_heading heading_is_heading)

lemma subject_headings:
  "filter is_heading (subject_intervention_lines lib ssi)
     = map (\<lambda>s. ''<b>URGENT '' @ str_upper lib s @ '' INTERVENTIONS:</b>'') (high_subjects ssi)"
  unfolding subject_intervention_lines_def high_subjects_def
  by (induction ssi) (simp_all add: subject_lines_headings)

lemma attention_headings:
  "filter is_heading (attention_lines asd)
     = (if lookup_key (JStr ''Short'') asd = None then [] else [''<b>ATTENTION SPAN MANAGEMENT:</b>''])"
  by (cases asd; cases "lookup_key (JStr ''Short'') asd")
    (auto simp: attention_lines_def item_not_heading heading_is_heading)

lemma layout_headings:
  "filter is_heading (layout_lines a) = [''<b>CLASSROOM LAYOUT (Rearrange This Week):</b>'']"
  by (simp add: layout_lines_def item_not_heading heading_is_heading)

lemma tracking_headings:
  "filter is_heading (tracking_lines n h) = [''<b>PROGRESS TRACKING SYSTEM (Start Monday):</b>'']"
  by (simp add: tracking_lines_def item_not_heading heading_is_heading)

lemma materials_headings:
  "filter is_heading materials_lines = [''<b>MATERIALS NEEDED (Zero Cost):</b>'']"
  by (simp add: materials_lines_def item_not_heading heading_is_heading)

text \<open>The headings of the output, in order.\<close>

lemma render_headings:
  "filter is_heading (render_insights lib t b) =
     [''<b>IMMEDIATE CLASSROOM SETUP (Implement Tomorrow):</b>'']
     @ (if peer_helpers b \<noteq> [] \<and> need_urgent_support b \<noteq> []
        then [''<b>PEER TUTORING SYSTEM (Start This Week):</b>''] else [])
     @ [''<b>DAILY SCHEDULE OPTIMIZATION (Exact Times):</b>'']
     @ map (\<lambda>s. ''<b>URGENT '' @ str_upper lib s @ '' INTERVENTIONS:</b>'')
         (high_subjects (subject_specific_issues b))
     @ (if lookup_key (JStr ''Short'') (attention_span_data b) = None
        then [] else [''<b>ATTENTION SPAN MANAGEMENT:</b>''])
     @ [''<b>CLASSROOM LAYOUT (Rearrange This Week):</b>'',
        ''<b>PROGRESS TRACKING SYSTEM (Start Monday):</b>'',
        ''<b>MATERIALS NEEDED (Zero Cost):</b>'']"
  unfolding render_insights_def filter_append setup_headings grades_headings peer_headings
    schedule_headings subject_headings attention_headings layout_headings tracking_headings
    materials_headings
  by simp

subsubsection \<open>The dictionaries after the pass\<close>

lemma key_eq_str: "key_eq k (JStr s) = (k = JStr s)"
  by (cases k) (simp_all add: key_eq_def)

lemma lookup_append_to:
  "(lookup_key (JStr s) (append_to key_eq att v m) = None)
     = (lookup_key (JStr s) m = None \<and> att \<noteq> JStr s)"
  by (induction m) (auto simp: key_eq_str split: if_splits)

lemma high_subjects_simps:
  "high_subjects [] = []"
  "high_subjects ((a, b) # m) = (if filter is_high b \<noteq> [] then [a] else []) @ high_subjects m"
  by (simp_all add: high_subjects_def)

lemma high_subjects_append_to:
  "set (high_subjects (append_to (=) k i m))
     = set (high_subjects m) \<union> (if is_high i then {k} else {})"
  by (induction m) (auto simp: high_subjects_simps split: if_splits)

lemma identify_frame:
  assumes "identify_helpers n a b = Inr b'"
  shows "attention_span_data b' = attention_span_data b"
    and "subject_specific_issues b' = subject_specific_issues b"
  unfolding identify_helpers_Inr [OF assms] by (simp_all add: Let_def)

lemma track_attention_Inr:
  assumes "track_attention n a b = Inr b'"
  shows "b' = (case attention_of a of
                 None \<Rightarrow> b
               | Some att \<Rightarrow>
                   b\<lparr>attention_span_data := append_to key_eq att n (attention_span_data b)\<rparr>)"
proof -
  from assms obtain present where
    p: "py_in ''student_profile'' a = Inr present"
    unfolding track_attention_def and_then_eq_Inr by blast
  show ?thesis
  proof (cases present)
    case False
    with p have "section_of ''student_profile'' a = None" by (simp add: py_in_no_section)
    then have "attention_of a = None" by (simp add: attention_of_def)
    moreover from assms p False have "b' = b" by (simp add: track_attention_def)
    ultimately show ?thesis by simp
  next
    case True
    from assms p True obtain profile att where
      s: "py_subscript a ''student_profile'' = Inr profile"
      and g: "py_get profile ''attention_span'' (JStr ''Medium'') = Inr att"
      and b': "b' = b\<lparr>attention_span_data := append_to key_eq att n (attention_span_data b)\<rparr>"
      by (auto simp: track_attention_def and_then_eq_Inr split: if_splits)
    from py_get_Inr [OF g] obtain kvs where
      "profile = JObj kvs"
      "att = (case map_of kvs ''attention_span'' of None \<Rightarrow> JStr ''Medium'' | Some v \<Rightarrow> v)"
      by blast
    moreover from p True s have "section_of ''student_profile'' a = Some profile"
      by (simp add: py_in_section)
    ultimately have "attention_of a = Some att" by (simp add: attention_of_def)
    then show ?thesis unfolding b' by simp
  qed
qed

lemma add_challenges_high:
  "add_challenges n s items b = Inr b' \<Longrightarrow>
   set (high_subjects (subject_specific_issues b'))
     = set (high_subjects (subject_specific_issues b))
       \<union> (if JStr ''High'' \<in> set (map severity_of items) then {s} else {})
   \<and> attention_span_data b' = attention_span_data b"
proof (induction items arbitrary: b)
  case Nil
  then show ?case by simp
next
  case (Cons c rest)
  from Cons.prems obtain iss sev where
    i: "py_get c ''challenge'' (JStr ''Unknown issue'') = Inr iss"
    and v: "py_get c ''severity'' (JStr ''Medium'') = Inr sev"
    and r: "add_challenges n s rest
         (b\<lparr>subject_specific_issues :=
               append_to (=) s \<lparr>student = n, issue = iss, severity = sev\<rparr>
                 (subject_specific_issues b)\<rparr>) = Inr b'"
    by (auto simp: and_then_eq_Inr)
  from py_get_Inr [OF v] have sev: "sev = severity_of c" by (auto simp: severity_of_def)
  from Cons.IH [OF r] show ?case
    by (auto simp: high_subjects_append_to is_high_def sev)
qed

lemma collect_issues_high:
  assumes "collect_issues n s a b = Inr b'"
  shows "set (high_subjects (subject_specific_issues b'))
     = set (high_subjects (subject_specific_issues b))
       \<union> (if has_high_challenge a then {s} else {})"
    and "attention_span_data b' = attention_span_data b"
proof -
  from assms obtain present where
    p: "py_in ''detailed_challenges'' a = Inr present"
    unfolding collect_issues_def and_then_eq_Inr by blast
  have "set (high_subjects (subject_specific_issues b'))
     = set (high_subjects (subject_specific_issues b))
       \<union> (if has_high_challenge a then {s} else {})
     \<and> attention_span_data b' = attention_span_data b"
  proof (cases present)
    case False
    with p have "section_of ''detailed_challenges'' a = None" by (simp add: py_in_no_section)
    then have "\<not> has_high_challenge a" by (simp add: has_high_challenge_def)
    moreover from assms p False have "b' = b" by (simp add: collect_issues_def)
    ultimately show ?thesis by simp
  next
    case True
    from assms p True obtain chs items where
      s: "py_subscript a ''detailed_challenges'' = Inr chs"
      and it: "py_iter chs = Inr items"
      and ad: "add_challenges n s items b = Inr b'"
      by (auto simp: collect_issues_def and_then_eq_Inr)
    from p True s have sec: "section_of ''detailed_challenges'' a = Some chs"
      by (simp add: py_in_section)
    have "has_high_challenge a = (JStr ''High'' \<in> set (map severity_of items))"
      using it unfolding has_high_challenge_def sec
      by (cases chs) (auto simp: severity_of_def)
    with add_challenges_high [OF ad] show ?thesis by simp
  qed
  then show "set (high_subjects (subject_specific_issues b'))
     = set (high_subjects (subject_specific_issues b))
       \<union> (if has_high_challenge a then {s} else {})"
    and "attention_span_data b' = attention_span_data b" by simp_all
qed

lemma process_report_dicts:
  assumes "process_report lib r b = Inr b'"
  shows "(lookup_key (JStr s) (attention_span_data b') = None)
           = (lookup_key (JStr s) (attention_span_data b) = None
              \<and> attention_of (analysis r) \<noteq> Some (JStr s))"
    and "set (high_subjects (subject_specific_issues b'))
           = set (high_subjects (subject_specific_issues b))
             \<union> (if has_high_challenge (analysis r) then {subject r} else {})"
proof -
  from assms obtain b1 b2 b3 where
    c: "categorize_performance lib (student_name r) (analysis r)
          (b\<lparr>grade_distribution := append_to (=) (grade r) (student_name r) (grade_distribution b)\<rparr>) = Inr b1"
    and i: "identify_helpers (student_name r) (analysis r) b1 = Inr b2"
    and t: "track_attention (student_name r) (analysis r) b2 = Inr b3"
    and k: "collect_issues (student_name r) (subject r) (analysis r) b3 = Inr b'"
    by (rule process_report_steps)
  have a2: "attention_span_data b2 = attention_span_data b"
    using categorize_frame(4) [OF c] identify_frame(1) [OF i] by simp
  have s2: "subject_specific_issues b2 = subject_specific_issues b"
    using categorize_frame(3) [OF c] identify_frame(2) [OF i] by simp
  have s3: "subject_specific_issues b3 = subject_specific_issues b2"
    unfolding track_attention_Inr [OF t] by (simp split: option.split)
  have a3: "(lookup_key (JStr s) (attention_span_data b3) = None)
           = (lookup_key (JStr s) (attention_span_data b2) = None
              \<and> attention_of (analysis r) \<noteq> Some (JStr s))"
    unfolding track_attention_Inr [OF t]
    by (cases "attention_of (analysis r)") (simp_all add: lookup_append_to)
  show "(lookup_key (JStr s) (attention_span_data b') = None)
           = (lookup_key (JStr s) (attention_span_data b) = None
              \<and> attention_of (analysis r) \<noteq> Some (JStr s))"
    using a3 unfolding collect_issues_high(2) [OF k] a2 .
  show "set (high_subjects (subject_specific_issues b'))
           = set (high_subjects (subject_specific_issues b))
             \<union> (if has_high_challenge (analysis r) then {subject r} else {})"
    unfolding collect_issues_high(1) [OF k] s3 s2 ..
qed

lemma process_reports_dicts:
  "process_reports lib rs b = Inr b' \<Longrightarrow>
   (lookup_key (JStr s) (attention_span_data b') = None)
      = (lookup_key (JStr s) (attention_span_data b) = None
         \<and> (\<forall>r \<in> set rs. attention_of (analysis r) \<noteq> Some (JStr s)))
   \<and> set (high_subjects (subject_specific_issues b'))
      = set (high_subjects (subject_specific_issues b))
        \<union> subject ` {r \<in> set rs. has_high_challenge (analysis r)}"
proof (induction rs arbitrary: b)
  case Nil
  then show ?case by simp
next
  case (Cons r rs)
  then obtain b1 where s: "process_report lib r b = Inr b1"
    and rest: "process_reports lib rs b1 = Inr b'"
    by (auto simp: and_then_eq_Inr)
  from Cons.IH [OF rest] process_report_dicts(1) [OF s, of s] process_report_dicts(2) [OF s]
  show ?case by auto
qed

lemma dicts_of_reports:
  assumes "process_reports lib rs empty_buckets = Inr b"
  shows "(lookup_key (JStr s) (attention_span_data b) = None)
           = (\<forall>r \<in> set rs. attention_of (analysis r) \<noteq> Some (JStr s))"
    and "set (high_subjects (subject_specific_issues b))
           = subject ` {r \<in> set rs. has_high_challenge (analysis r)}"
  using process_reports_dicts [OF assms, of s]
  by (simp_all add: empty_buckets_def high_subjects_def)


lemma ravi_scores: "metric_scores ravi_analysis = Some [4, 5, 4, 5, 4]"
  by (simp add: ravi_analysis_def metric_scores_def section_of_def metric_names_def)

lemma ravi_processed: "\<exists>b'. process_report lib (example_report i n ravi_analysis) b = Inr b'"
proof -
  from categorize_exact [OF ravi_scores low_scores_summable] obtain b1 where
    "categorize_performance lib n ravi_analysis
       (b\<lparr>grade_distribution := append_to (=) ''Class 4'' n (grade_distribution b)\<rparr>) = Inr b1"
    by blast
  then show ?thesis
    by (simp add: process_report_def Let_def example_report_def)
      (simp add: ravi_analysis_def identify_helpers_def track_attention_def collect_issues_def)
qed

lemma mixed_class_output: "\<exists>out. generate_class_strategic_insights lib mixed_class = Inr out"
proof -
  have "\<exists>b'. process_reports lib mixed_class empty_buckets = Inr b'"
    by (rule process_reports_total)
      (auto simp: mixed_class_def helper_only_processed ravi_processed)
  then show ?thesis unfolding generate_Inr by blast
qed

lemma mixed_class_facts:
  "flag_set ''can_help_younger_students'' helper_only"
  "code_band lib ravi_analysis = Urgent"
  "attention_of ravi_analysis = Some (JStr ''Short'')"
  "attention_of helper_only = None"
  "has_high_challenge ravi_analysis"
  "\<not> has_high_challenge helper_only"
  "upper ''Mathematics'' = ''MATHEMATICS''"
  "upper ''Science'' = ''SCIENCE''"
proof -
  show "code_band lib ravi_analysis = Urgent"
    using code_band_exact [OF ravi_scores low_scores_summable, of lib] by simp
  show "upper ''Mathematics'' = ''MATHEMATICS''" "upper ''Science'' = ''SCIENCE''"
    by code_simp+
qed (simp_all add: flag_set_def entry_of_def section_of_def helper_only_def ravi_analysis_def
    attention_of_def has_high_challenge_def severity_of_def)

lemma lone_scores:
  "metric_scores (performance_only [JInt 7, JInt 6, JInt 5, JInt 6, JInt 7]) = Some [7, 6, 5, 6, 7]"
  "exactly_summable (map Finite [7, 6, 5, 6, 7 :: rat])"
  unfolding exactly_summable_iff
  by (simp_all add: performance_only_def metric_scores_def section_of_def metric_names_def)

lemma lone_student_output: "\<exists>out. generate_class_strategic_insights lib lone_student = Inr out"
proof -
  have "\<exists>b'. process_reports lib lone_student empty_buckets = Inr b'"
    by (rule process_reports_total)
      (auto simp: lone_student_def performance_only_processed [OF lone_scores])
  then show ?thesis unfolding generate_Inr by blast
qed

lemma lone_student_facts:
  "\<not> flag_set k (performance_only vs)"
  "code_band lib (performance_only [JInt 7, JInt 6, JInt 5, JInt 6, JInt 7]) = Mid"
  "attention_of (performance_only vs) = None"
  "\<not> has_high_challenge (performance_only vs)"
proof -
  show "code_band lib (performance_only [JInt 7, JInt 6, JInt 5, JInt 6, JInt 7]) = Mid"
    using code_band_exact [OF lone_scores, of lib] by simp
qed (simp_all add: flag_set_def entry_of_def section_of_def performance_only_def
    attention_of_def has_high_challenge_def)


lemma performance_only_mid:
  assumes "metric_scores (performance_only vs) = Some qs" "exactly_summable (map Finite qs)"
    and "\<not> 15 / 2 \<le> sum_list qs / 5" "\<not> sum_list qs / 5 < 11 / 2"
  shows "process_report lib (example_report i n (performance_only vs)) b
     = Inr (b\<lparr>grade_distribution := append_to (=) ''Class 4'' n (grade_distribution b)\<rparr>)"
proof -
  from categorize_exact [OF assms(1,2)] obtain b1 where
    c: "categorize_performance lib n (performance_only vs)
       (b\<lparr>grade_distribution := append_to (=) ''Class 4'' n (grade_distribution b)\<rparr>) = Inr b1"
    by blast
  from categorize_Inr [OF c] code_band_exact [OF assms(1,2), of lib] assms(3,4)
  have "b1 = b\<lparr>grade_distribution := append_to (=) ''Class 4'' n (grade_distribution b)\<rparr>"
    by simp
  with c show ?thesis
    by (simp add: process_report_def Let_def example_report_def)
      (simp add: performance_only_def identify_helpers_def track_attention_def collect_issues_def)
qed

lemma lone_student_buckets:
  "process_reports lib lone_student empty_buckets
     = Inr (empty_buckets\<lparr>grade_distribution := [(''Class 4'', [''Arjun''])]\<rparr>)"
  unfolding lone_student_def
  by (simp add: performance_only_mid [OF lone_scores]) (simp add: empty_buckets_def)


subsection \<open>The assessment requester\<close>

lemma getitem_Some [simp]: "d k = Some v \<Longrightarrow> getitem d k = Inr v"
  by (simp add: getitem_def)

lemma getitem_None [simp]: "d k = None \<Longrightarrow> getitem d k = Inl (KeyError k)"
  by (simp add: getitem_def)

lemma valid_record_fields:
  assumes "valid_record d"
  obtains n g s r x where "d ''name'' = Some n" "d ''grade'' = Some g" "d ''subject'' = Some s"
    "d ''remark'' = Some r" "d ''exam_date'' = Some x"
  using assms by (auto simp: valid_record_def required_fields_def)

lemma fallback_truthy: "truthy (fallback_of g n)"
  by (simp add: fallback_of_def)

lemma analyze_valid:
  assumes "valid_record d"
  shows "\<exists>pr. build_prompt d = Inr pr
    \<and> analyze_student_with_ai attribute ld gen d =
        (case attribute of
           None \<Rightarrow> ([], Inr (fallback_of (the (d ''grade'')) (the (d ''name''))))
         | Some p \<Rightarrow>
             ([(pr, retry_with p)],
              Inr (case gen pr (retry_with p) of
                     Text t \<Rightarrow>
                       (case ld (clean_response t) of
                          Some a \<Rightarrow> a
                        | None \<Rightarrow> fallback_of (the (d ''grade'')) (the (d ''name'')))
                   | _ \<Rightarrow> fallback_of (the (d ''grade'')) (the (d ''name'')))))"
proof -
  from assms obtain n g s r x where
    f: "d ''name'' = Some n" "d ''grade'' = Some g" "d ''subject'' = Some s"
    "d ''remark'' = Some r" "d ''exam_date'' = Some x"
    by (rule valid_record_fields)
  have pr: "build_prompt d = Inr \<lparr>p_name = n, p_grade = g, p_subject = s, p_remark = r\<rparr>"
    by (simp add: build_prompt_def f)
  have fb: "create_enhanced_fallback_analysis d = Inr (fallback_of g n)"
    by (simp add: create_enhanced_fallback_analysis_def f)
  have ex: "except_clause d = Inr (fallback_of g n)"
    by (simp add: except_clause_def f fb)
  show ?thesis
    by (simp add: analyze_student_with_ai_def pr fb ex f
        split: ai_outcome.split option.split)
qed


lemma arjun_valid: "valid_record arjun"
  by (simp add: valid_record_def required_fields_def arjun_def demo_record_def)

lemma unparseable_reply: "json_loads ''Sorry, I cannot help.'' = None"
  by code_simp

lemma malformed_reply_parsed:
  "json_loads malformed_reply = Some (JObj [(''academic_performance'', JInt 7)])"
  by code_simp



subsection \<open>The run\<close>

lemma analyze_calls:
  "fst (analyze_student_with_ai att ld gen d) = []
   \<or> (\<exists>pr p. att = Some p \<and> fst (analyze_student_with_ai att ld gen d) = [(pr, retry_with p)])"
  by (simp add: analyze_student_with_ai_def split: sum.split option.split)

lemma analyze_offline: "fst (analyze_student_with_ai None ld gen d) = []"
  by (simp add: analyze_student_with_ai_def split: sum.split)

lemma analyze_lacking:
  assumes "lacks_prompt_field d"
  shows "\<exists>err. analyze_student_with_ai att ld gen d = ([], Inl err)"
proof -
  have "\<exists>err. build_prompt d = Inl err"
    using assms
    by (cases "d ''name''"; cases "d ''grade''"; cases "d ''subject''"; cases "d ''remark''")
      (simp_all add: lacks_prompt_field_def build_prompt_def)
  then show ?thesis by (auto simp: analyze_student_with_ai_def)
qed

text \<open>One round of the loop: it stops with an exception, or goes on without a report
  (the analysis was a false value), or goes on with one more report and one more
  reading of the clock.\<close>

lemma analysis_loop_Cons:
  assumes "analysis_loop e i (d # rest) st = (st', r)"
  obtains (stopped) cs err where "r = Some err" "st' = st\<lparr>calls := calls st @ cs\<rparr>"
      "cs = fst (analyze_student_with_ai (retry_attribute e) (loads e) (capability_at e i) d)
       \<or> cs = []"
  | (skipped) a where
      "analyze_student_with_ai (retry_attribute e) (loads e) (capability_at e i) d
         = (fst (analyze_student_with_ai (retry_attribute e) (loads e) (capability_at e i) d), Inr a)"
      "\<not> truthy a"
      "analysis_loop e (Suc i) rest
         (st\<lparr>calls := calls st
            @ fst (analyze_student_with_ai (retry_attribute e) (loads e) (capability_at e i) d)\<rparr>)
         = (st', r)"
  | (reported) a rep where
      "analyze_student_with_ai (retry_attribute e) (loads e) (capability_at e i) d
         = (fst (analyze_student_with_ai (retry_attribute e) (loads e) (capability_at e i) d), Inr a)"
      "truthy a"
      "make_report i d (now e (clock st)) a = Inr rep"
      "analysis_loop e (Suc i) rest
         (st\<lparr>calls := calls st
            @ fst (analyze_student_with_ai (retry_attribute e) (loads e) (capability_at e i) d),
             clock := Suc (clock st), reports := reports st @ [rep]\<rparr>)
         = (st', r)"
proof (cases "and_then (getitem d ''name'') (\<lambda>n. getitem d ''grade'')")
  case (Inl err)
  with assms have "r = Some err" "st' = st\<lparr>calls := calls st @ []\<rparr>" by simp_all
  from stopped [OF this] show ?thesis by simp
next
  case (Inr g)
  obtain cs res where
    a: "analyze_student_with_ai (retry_attribute e) (loads e) (capability_at e i) d = (cs, res)"
    by (cases "analyze_student_with_ai (retry_attribute e) (loads e) (capability_at e i) d")
  show ?thesis
  proof (cases res)
    case (Inl err)
    with assms Inr a have "r = Some err" "st' = st\<lparr>calls := calls st @ cs\<rparr>"
      by (simp_all add: Let_def)
    from stopped [OF this] a show ?thesis by simp
  next
    case res: (Inr x)
    show ?thesis
    proof (cases "truthy x")
      case False
      with assms Inr a res have
        "analysis_loop e (Suc i) rest (st\<lparr>calls := calls st @ cs\<rparr>) = (st', r)"
        by (simp add: Let_def)
      with a res False show ?thesis by (intro skipped [of x]) simp_all
    next
      case True
      show ?thesis
      proof (cases "make_report i d (now e (clock st)) x")
        case (Inl err)
        with assms Inr a res True have "r = Some err" "st' = st\<lparr>calls := calls st @ cs\<rparr>"
          by (simp_all add: Let_def)
        from stopped [OF this] a show ?thesis by simp
      next
        case mr: (Inr rep)
        with assms Inr a res True have
          "analysis_loop e (Suc i) rest
             (st\<lparr>calls := calls st @ cs, clock := Suc (clock st), reports := reports st @ [rep]\<rparr>)
           = (st', r)"
          by (simp add: Let_def)
        with a res True mr show ?thesis by (intro reported [of x rep]) simp_all
      qed
    qed
  qed
qed

lemma analysis_loop_calls:
  "analysis_loop e i batch st = (st', r) \<Longrightarrow>
   \<forall>c \<in> set (calls st). \<exists>p. retry_attribute e = Some p \<and> snd c = retry_with p \<Longrightarrow>
   \<forall>c \<in> set (calls st'). \<exists>p. retry_attribute e = Some p \<and> snd c = retry_with p"
proof (induction batch arbitrary: i st)
  case Nil
  then show ?case by simp
next
  case (Cons d rest)
  have cs: "\<forall>c \<in> set (fst (analyze_student_with_ai (retry_attribute e) (loads e)
                (capability_at e i) d)). \<exists>p. retry_attribute e = Some p \<and> snd c = retry_with p"
    using analyze_calls [of "retry_attribute e" "loads e" "capability_at e i" d] by auto
  from Cons.prems(1) show ?case
  proof (cases rule: analysis_loop_Cons)
    case (stopped cs' err)
    with cs Cons.prems(2) show ?thesis by auto
  next
    case (skipped a)
    from Cons.IH [OF skipped(3)] cs Cons.prems(2) show ?thesis by auto
  next
    case (reported a rep)
    from Cons.IH [OF reported(4)] cs Cons.prems(2) show ?thesis by auto
  qed
qed

lemma analysis_loop_clock:
  "analysis_loop e i batch st = (st', r) \<Longrightarrow>
   clock st = length (reports st) \<Longrightarrow> clock st' = length (reports st')"
proof (induction batch arbitrary: i st)
  case Nil
  then show ?case by simp
next
  case (Cons d rest)
  from Cons.prems(1) show ?case
  proof (cases rule: analysis_loop_Cons)
    case (stopped cs' err)
    with Cons.prems(2) show ?thesis by simp
  next
    case (skipped a)
    from Cons.IH [OF skipped(3)] Cons.prems(2) show ?thesis by simp
  next
    case (reported a rep)
    from Cons.IH [OF reported(4)] Cons.prems(2) show ?thesis by simp
  qed
qed

lemma make_report_needs_exam_date:
  "d ''exam_date'' = None \<Longrightarrow> \<exists>err. make_report i d t a = Inl err"
  by (cases "d ''name''"; cases "d ''grade''"; cases "d ''subject''")
    (simp_all add: make_report_def)

lemma analyze_truthy:
  assumes "truthy_replies e"
    and "analyze_student_with_ai (retry_attribute e) (loads e) (capability_at e i) d = (cs, Inr a)"
  shows "truthy a"
proof -
  from assms(2) obtain pr where pr: "build_prompt d = Inr pr"
    by (auto simp: analyze_student_with_ai_def split: sum.splits)
  then obtain n g where ng: "d ''name'' = Some n" "d ''grade'' = Some g"
    by (cases "d ''name''"; cases "d ''grade''") (simp_all add: build_prompt_def)
  then have fb: "create_enhanced_fallback_analysis d = Inr (fallback_of g n)"
    "except_clause d = Inr (fallback_of g n)"
    by (simp_all add: create_enhanced_fallback_analysis_def except_clause_def)
  show ?thesis
  proof (cases "retry_attribute e")
    case None
    with assms(2) pr fb show ?thesis
      by (auto simp: analyze_student_with_ai_def fallback_truthy)
  next
    case (Some p)
    show ?thesis
    proof (cases "capability_at e i pr (retry_with p)")
      case Raised
      with assms(2) pr fb Some show ?thesis
        by (auto simp: analyze_student_with_ai_def fallback_truthy)
    next
      case Missing
      with assms(2) pr fb Some show ?thesis
        by (auto simp: analyze_student_with_ai_def fallback_truthy)
    next
      case (Text t)
      show ?thesis
      proof (cases "loads e (clean_response t)")
        case None
        with Text assms(2) pr fb Some show ?thesis
          by (auto simp: analyze_student_with_ai_def fallback_truthy)
      next
        case v: (Some v)
        with Text assms(2) pr Some have "a = v" by (auto simp: analyze_student_with_ai_def)
        with assms(1) Text v Some show ?thesis by (auto simp: truthy_replies_def)
      qed
    qed
  qed
qed

lemma analysis_loop_stops:
  assumes "(\<exists>d \<in> set batch. lacks_prompt_field d)
           \<or> (truthy_replies e \<and> (\<exists>d \<in> set batch. \<not> valid_record d))"
  shows "\<exists>st' err. analysis_loop e i batch st = (st', Some err)"
  using assms
proof (induction batch arbitrary: i st)
  case Nil
  then show ?case by simp
next
  case (Cons d rest)
  obtain st' r where l: "analysis_loop e i (d # rest) st = (st', r)"
    by (cases "analysis_loop e i (d # rest) st")
  from l show ?case
  proof (cases rule: analysis_loop_Cons)
    case (stopped cs' err)
    with l show ?thesis by simp
  next
    case (skipped a)
    from skipped(1) have nl: "\<not> lacks_prompt_field d"
      using analyze_lacking [of d "retry_attribute e" "loads e" "capability_at e i"] by auto
    have nt: "\<not> truthy_replies e"
      using analyze_truthy [OF _ skipped(1)] skipped(2) by auto
    from Cons.prems nl nt have "\<exists>d \<in> set rest. lacks_prompt_field d" by auto
    then have "\<exists>st'' err. analysis_loop e (Suc i) rest
         (st\<lparr>calls := calls st
            @ fst (analyze_student_with_ai (retry_attribute e) (loads e) (capability_at e i) d)\<rparr>)
         = (st'', Some err)"
      by (intro Cons.IH) simp
    with skipped(3) l show ?thesis by auto
  next
    case (reported a rep)
    from reported(1) have nl: "\<not> lacks_prompt_field d"
      using analyze_lacking [of d "retry_attribute e" "loads e" "capability_at e i"] by auto
    from reported(3) have ed: "d ''exam_date'' \<noteq> None"
      using make_report_needs_exam_date [of d i "now e (clock st)" a] by auto
    from nl ed have "valid_record d"
      by (auto simp: valid_record_def required_fields_def lacks_prompt_field_def)
    with Cons.prems nl have
      "(\<exists>d \<in> set rest. lacks_prompt_field d)
       \<or> (truthy_replies e \<and> (\<exists>d \<in> set rest. \<not> valid_record d))" by auto
    then have "\<exists>st'' err. analysis_loop e (Suc i) rest
         (st\<lparr>calls := calls st
            @ fst (analyze_student_with_ai (retry_attribute e) (loads e) (capability_at e i) d),
             clock := Suc (clock st), reports := reports st @ [rep]\<rparr>)
         = (st'', Some err)"
      by (rule Cons.IH)
    with reported(4) l show ?thesis by auto
  qed
qed

text \<open>One round of the loop for a record with all five fields whose analysis is the
  fallback.\<close>

lemma analysis_loop_fallback:
  assumes "valid_record d"
    and "analyze_student_with_ai (retry_attribute e) (loads e) (capability_at e i) d
           = (cs, Inr (fallback_of (the (d ''grade'')) (the (d ''name''))))"
  shows "analysis_loop e i (d # rest) st =
     analysis_loop e (Suc i) rest
       (st\<lparr>calls := calls st @ cs, clock := Suc (clock st),
           reports := reports st @
             [\<lparr>student_id = i, student_name = the (d ''name''), grade = the (d ''grade''),
               subject = the (d ''subject''), exam_date = the (d ''exam_date''),
               original_remark = the (d ''remark''), analysis_date = isoformat (now e (clock st)),
               analysis = fallback_of (the (d ''grade'')) (the (d ''name''))\<rparr>]\<rparr>)"
proof -
  from assms(1) obtain n g s r x where
    f: "d ''name'' = Some n" "d ''grade'' = Some g" "d ''subject'' = Some s"
    "d ''remark'' = Some r" "d ''exam_date'' = Some x"
    by (rule valid_record_fields)
  show ?thesis
    using assms(2) by (simp add: f make_report_def fallback_truthy)
qed

lemma analyze_raised:
  assumes "valid_record d"
  shows "analyze_student_with_ai None ld gen d
           = ([], Inr (fallback_of (the (d ''grade'')) (the (d ''name''))))"
    and "\<exists>pr. build_prompt d = Inr pr
           \<and> analyze_student_with_ai (Some p) ld (always Raised) d
           = ([(pr, retry_with p)], Inr (fallback_of (the (d ''grade'')) (the (d ''name''))))"
  using analyze_valid [OF assms, of None ld gen]
    analyze_valid [OF assms, of "Some p" ld "always Raised"]
  by (auto simp: always_def)

lemma priya_valid: "valid_record priya"
  by (simp add: valid_record_def required_fields_def priya_def demo_record_def)

lemma demo_fields:
  "the (arjun ''name'') = ''Arjun''" "the (arjun ''grade'') = ''Class 4''"
  "the (priya ''name'') = ''Priya''" "the (priya ''grade'') = ''Class 5''"
  by (simp_all add: arjun_def priya_def demo_record_def)


lemma offline_truthy: "truthy_replies offline_env"
  by (simp add: truthy_replies_def offline_env_def)




lemma online_run_calls:
  "\<exists>pr. calls_made (generate_complete_report
            (offline_env\<lparr>retry_attribute := Some if_transient_error\<rparr>) [arjun])
     = [(pr, retry_with if_transient_error)]"
proof -
  let ?e = "offline_env\<lparr>retry_attribute := Some if_transient_error\<rparr>"
  from analyze_raised(2) [OF arjun_valid, of if_transient_error json_loads] obtain pr where
    a': "analyze_student_with_ai (retry_attribute ?e) (loads ?e) (capability_at ?e 1) arjun
       = ([(pr, retry_with if_transient_error)],
          Inr (fallback_of (the (arjun ''grade'')) (the (arjun ''name''))))"
    by (auto simp: offline_env_def)
  show ?thesis
    unfolding generate_complete_report_def analysis_loop_fallback [OF arjun_valid a']
    by (simp add: Let_def)
qed


subsection \<open>The artifacts of a run\<close>

lemma offline_analysis:
  assumes "valid_record d"
  shows "analyze_student_with_ai (retry_attribute offline_env) (loads offline_env)
           (capability_at offline_env i) d
         = ([], Inr (fallback_of (the (d ''grade'')) (the (d ''name''))))"
  using analyze_raised(1) [OF assms] by (simp add: offline_env_def)

lemma produced_bundle:
  assumes "produced (generate_complete_report e batch) = Some b"
  shows "b = make_bundle e (length (reports_built (generate_complete_report e batch)))
               (reports_built (generate_complete_report e batch))"
proof -
  obtain st r where l: "analysis_loop e 1 batch \<lparr>calls = [], clock = 0, reports = []\<rparr> = (st, r)"
    by (cases "analysis_loop e 1 batch \<lparr>calls = [], clock = 0, reports = []\<rparr>")
  from analysis_loop_clock [OF l] have c: "clock st = length (reports st)" by simp
  from assms l show ?thesis
    by (auto simp: generate_complete_report_def Let_def c split: option.splits if_splits)
qed

text \<open>
  Claim C8, as the code has it. In a run that produces its artifacts, the name of the
  PDF document ends with the clock reading taken when the PDF step starts, and the name
  of the archival data file with the reading taken when step 5 starts, two readings
  later; both are formatted as \<^verbatim>\<open>%Y%m%d_%H%M%S\<close>. The class dashboard image has the fixed
  name \<^verbatim>\<open>sahayak_class_analytics.png\<close>, and the image of a student is named after the
  student's number and name. The images carry no timestamp.
\<close>

theorem artifact_names:
  assumes "produced (generate_complete_report e batch) = Some b"
  shows "pdf_filename b
      = temp_dir e @ ''/SAHAYAK_Complete_Report_''
          @ strftime (now e (length (reports_built (generate_complete_report e batch))))
          @ ''.pdf''
    \<and> json_filename b
      = temp_dir e @ ''/sahayak_analysis_data_''
          @ strftime (now e (length (reports_built (generate_complete_report e batch)) + 2))
          @ ''.json''
    \<and> class_chart b = temp_dir e @ ''/sahayak_class_analytics.png''
    \<and> individual_charts b
      = map (\<lambda>r. temp_dir e @ ''/sahayak_student_'' @ str_nat (student_id r) @ ''_''
                  @ map (\<lambda>c. if c = CHR '' '' then CHR ''_'' else c) (student_name r) @ ''.png'')
          (reports_built (generate_complete_report e batch))"
  unfolding produced_bundle [OF assms]
  by (simp add: make_bundle_def pdf_report_filename_def json_data_filename_def
      class_chart_filename_def student_chart_filename_def path_join_def underscores_def)

lemma ticking_stamp: "strftime (ticking n) = ''20250115_1030'' @ pad 2 n"
  by (simp add: strftime_def ticking_def pad_def str_nat.simps)

lemma demo_run_reports:
  "produced (generate_complete_report offline_env [arjun, priya]) \<noteq> None"
  "map student_id (reports_built (generate_complete_report offline_env [arjun, priya])) = [1, 2]"
  "map student_name (reports_built (generate_complete_report offline_env [arjun, priya]))
     = [''Arjun'', ''Priya'']"
  unfolding generate_complete_report_def
    analysis_loop_fallback [OF arjun_valid offline_analysis [OF arjun_valid]]
    analysis_loop_fallback [OF priya_valid offline_analysis [OF priya_valid]]
  by (simp_all add: Let_def demo_fields) (simp add: offline_env_def)

theorem artifact_names_witness:
  "\<exists>b. produced (generate_complete_report offline_env [arjun, priya]) = Some b
     \<and> pdf_filename b = ''/tmp/sahayak/SAHAYAK_Complete_Report_20250115_103002.pdf''
     \<and> json_filename b = ''/tmp/sahayak/sahayak_analysis_data_20250115_103004.json''
     \<and> class_chart b = ''/tmp/sahayak/sahayak_class_analytics.png''
     \<and> individual_charts b
         = [''/tmp/sahayak/sahayak_student_1_Arjun.png'',
            ''/tmp/sahayak/sahayak_student_2_Priya.png'']"
proof -
  from demo_run_reports(1) obtain b where
    b: "produced (generate_complete_report offline_env [arjun, priya]) = Some b" by blast
  obtain r1 r2 where
    rs: "reports_built (generate_complete_report offline_env [arjun, priya]) = [r1, r2]"
    and ids: "student_id r1 = 1" "student_id r2 = 2"
    and names: "student_name r1 = ''Arjun''" "student_name r2 = ''Priya''"
    using demo_run_reports(2,3) by (auto simp: map_eq_Cons_conv)
  have len: "length (reports_built (generate_complete_report offline_env [arjun, priya])) = 2"
    by (simp add: rs)
  from artifact_names [OF b, unfolded len rs] have
    "pdf_filename b = ''/tmp/sahayak/SAHAYAK_Complete_Report_20250115_103002.pdf''
     \<and> json_filename b = ''/tmp/sahayak/sahayak_analysis_data_20250115_103004.json''
     \<and> class_chart b = ''/tmp/sahayak/sahayak_class_analytics.png''
     \<and> individual_charts b
         = [''/tmp/sahayak/sahayak_student_1_Arjun.png'',
            ''/tmp/sahayak/sahayak_student_2_Priya.png'']"
    by (simp add: ids names ticking_stamp pad_def str_nat.simps offline_env_def)
  with b show ?thesis by blast
qed

text \<open>A run on the record of Arjun alone, with a clock that advances by one second at
  every reading: the PDF document and the data file carry different timestamps, and the
  two images carry none.\<close>

theorem timestamp_suffix_counterexample:
  "map_option pdf_filename (produced (generate_complete_report offline_env [arjun]))
     = Some ''/tmp/sahayak/SAHAYAK_Complete_Report_20250115_103001.pdf''
   \<and> map_option json_filename (produced (generate_complete_report offline_env [arjun]))
     = Some ''/tmp/sahayak/sahayak_analysis_data_20250115_103003.json''
   \<and> map_option class_chart (produced (generate_complete_report offline_env [arjun]))
     = Some ''/tmp/sahayak/sahayak_class_analytics.png''
   \<and> map_option individual_charts (produced (generate_complete_report offline_env [arjun]))
     = Some [''/tmp/sahayak/sahayak_student_1_Arjun.png'']"
  unfolding generate_complete_report_def
    analysis_loop_fallback [OF arjun_valid offline_analysis [OF arjun_valid]]
  by (simp add: Let_def demo_fields make_bundle_def pdf_report_filename_def
      json_data_filename_def class_chart_filename_def student_chart_filename_def path_join_def
      underscores_def)
    (simp add: offline_env_def ticking_stamp pad_def str_nat.simps)

end
